theory Spec2Isabelle
  imports Complex_Main "HOL-Library.Word"
begin

section \<open>The IMU state block of ov\_type (src/ov\_core/src/types/IMU.h)\<close>

text \<open>
  The class \<^verbatim>\<open>IMU\<close> owns five sub-variables through shared pointers and keeps a flat
  23-vector beside them. Objects are mutated in place and compared by pointer identity,
  so the embedding uses an explicit store: one function per member, from addresses to
  member values, and an allocation counter. C++ \<^verbatim>\<open>double\<close> is idealised as \<open>real\<close>,
  \<^verbatim>\<open>int\<close> is a 32-bit word, and \<^verbatim>\<open>assert\<close> is taken as active: a failed assertion
  ends the call with an error and the store as it was at that moment.
\<close>

subsection \<open>Eigen vectors and matrices\<close>

type_synonym addr = nat
type_synonym cint = "32 word"

text \<open>A column vector (\<^verbatim>\<open>VectorXd\<close>, \<^verbatim>\<open>Matrix<double, N, 1>\<close>) is the list of its
  entries; a \<^verbatim>\<open>MatrixXd\<close> is the list of its columns.\<close>

type_synonym vector = "real list"
type_synonym matrix = "real list list"
type_synonym vec4 = "real \<times> real \<times> real \<times> real"

definition rows :: "matrix \<Rightarrow> nat" where
  "rows m = (case m of [] \<Rightarrow> 0 | c # _ \<Rightarrow> length c)"

definition cols :: "matrix \<Rightarrow> nat" where
  "cols m = length m"

definition zeros :: "nat \<Rightarrow> nat \<Rightarrow> matrix" where
  "zeros r c = replicate c (replicate r 0)"

definition as_matrix :: "vector \<Rightarrow> matrix" where
  "as_matrix v = [v]"

definition as_vector :: "matrix \<Rightarrow> vector" where
  "as_vector m = (case m of [] \<Rightarrow> [] | c # _ \<Rightarrow> c)"

text \<open>\<^verbatim>\<open>m.block(i, j, p, q)\<close> read, and \<^verbatim>\<open>m.block(i, j, p, q) = b\<close> written.\<close>

definition block :: "nat \<Rightarrow> nat \<Rightarrow> nat \<Rightarrow> nat \<Rightarrow> matrix \<Rightarrow> matrix" where
  "block i j p q m = map (\<lambda>c. take p (drop i c)) (take q (drop j m))"

definition vset_block :: "nat \<Rightarrow> nat \<Rightarrow> vector \<Rightarrow> vector \<Rightarrow> vector" where
  "vset_block i p b v = take i v @ take p b @ drop (i + p) v"

definition set_block :: "nat \<Rightarrow> nat \<Rightarrow> nat \<Rightarrow> nat \<Rightarrow> matrix \<Rightarrow> matrix \<Rightarrow> matrix" where
  "set_block i j p q b m =
     take j m @ map (\<lambda>(c, bc). vset_block i p bc c) (zip (take q (drop j m)) (take q b))
       @ drop (j + q) m"

definition vblock :: "nat \<Rightarrow> nat \<Rightarrow> vector \<Rightarrow> vector" where
  "vblock i p v = take p (drop i v)"

definition vadd :: "vector \<Rightarrow> vector \<Rightarrow> vector" where
  "vadd a b = map (\<lambda>(x, y). x + y) (zip a b)"

definition vec4_of :: "vector \<Rightarrow> vec4" where
  "vec4_of v = (v ! 0, v ! 1, v ! 2, v ! 3)"

definition list_of_vec4 :: "vec4 \<Rightarrow> vector" where
  "list_of_vec4 q = (case q of (a, b, c, d) \<Rightarrow> [a, b, c, d])"

subsection \<open>The store\<close>

text \<open>Members of \<^verbatim>\<open>Type\<close> (\<^verbatim>\<open>_id\<close>, \<^verbatim>\<open>_size\<close>, \<^verbatim>\<open>_value\<close>, \<^verbatim>\<open>_fej\<close>), of
  \<^verbatim>\<open>PoseJPL\<close> (\<^verbatim>\<open>_q\<close>, \<^verbatim>\<open>_p\<close>) and of \<^verbatim>\<open>IMU\<close> (\<^verbatim>\<open>_pose\<close>, \<^verbatim>\<open>_v\<close>, \<^verbatim>\<open>_bg\<close>,
  \<^verbatim>\<open>_ba\<close>, \<^verbatim>\<open>_keyframe_pose\<close>), each a function of the object's address. Addresses are
  handed out in increasing order and never reused.\<close>

record heap =
  next_addr :: addr
  m_id :: "addr \<Rightarrow> cint"
  m_size :: "addr \<Rightarrow> cint"
  m_value :: "addr \<Rightarrow> matrix"
  m_fej :: "addr \<Rightarrow> matrix"
  m_q :: "addr \<Rightarrow> addr"
  m_p :: "addr \<Rightarrow> addr"
  m_pose :: "addr \<Rightarrow> addr"
  m_v :: "addr \<Rightarrow> addr"
  m_bg :: "addr \<Rightarrow> addr"
  m_ba :: "addr \<Rightarrow> addr"
  m_keyframe_pose :: "addr \<Rightarrow> addr"

datatype error = AssertionFailed

type_synonym 'a result = "(error + 'a) \<times> heap"

definition seq :: "(heap \<Rightarrow> unit result) \<Rightarrow> (heap \<Rightarrow> 'a result) \<Rightarrow> heap \<Rightarrow> 'a result" where
  "seq f g h = (case f h of (Inl e, h') \<Rightarrow> (Inl e, h') | (Inr u, h') \<Rightarrow> g h')"

definition bind_res :: "(heap \<Rightarrow> 'a result) \<Rightarrow> ('a \<Rightarrow> heap \<Rightarrow> 'b result) \<Rightarrow> heap \<Rightarrow> 'b result" where
  "bind_res f g h = (case f h of (Inl e, h') \<Rightarrow> (Inl e, h') | (Inr x, h') \<Rightarrow> g x h')"

definition alloc :: "heap \<Rightarrow> addr \<times> heap" where
  "alloc h = (next_addr h, h\<lparr>next_addr := Suc (next_addr h)\<rparr>)"

definition empty_heap :: heap where
  "empty_heap = \<lparr>next_addr = 0, m_id = (\<lambda>_. 0), m_size = (\<lambda>_. 0), m_value = (\<lambda>_. []),
     m_fej = (\<lambda>_. []), m_q = (\<lambda>_. 0), m_p = (\<lambda>_. 0), m_pose = (\<lambda>_. 0), m_v = (\<lambda>_. 0),
     m_bg = (\<lambda>_. 0), m_ba = (\<lambda>_. 0), m_keyframe_pose = (\<lambda>_. 0)\<rparr>"

subsection \<open>The classes IMU.h builds on\<close>

text \<open>Modelled from the spec: Type.h is missing. The base constructor \<^verbatim>\<open>Type(size)\<close>
  records the error dimension; the covariance index starts at \<open>-1\<close> (not registered)
  and value and linearization value start empty.\<close>

definition Type_init :: "addr \<Rightarrow> cint \<Rightarrow> heap \<Rightarrow> heap" where
  "Type_init this sz h =
     h\<lparr>m_id := (m_id h)(this := - 1), m_size := (m_size h)(this := sz),
       m_value := (m_value h)(this := []), m_fej := (m_fej h)(this := [])\<rparr>"

text \<open>Modelled from the spec: Type.h is missing. \<^verbatim>\<open>setLocalIndex\<close> of a leaf stores the
  index; \<^verbatim>\<open>setValue\<close> and \<^verbatim>\<open>setLinearizationValue\<close> overwrite wholesale and fail when
  the ambient dimension of the argument is not that of the stored vector.\<close>

definition Type_set_local_id :: "addr \<Rightarrow> cint \<Rightarrow> heap \<Rightarrow> heap" where
  "Type_set_local_id this new_id h = h\<lparr>m_id := (m_id h)(this := new_id)\<rparr>"

definition Type_set_value :: "addr \<Rightarrow> matrix \<Rightarrow> heap \<Rightarrow> unit result" where
  "Type_set_value this new_value h =
     (if rows (m_value h this) \<noteq> rows new_value then (Inl AssertionFailed, h)
      else if cols (m_value h this) \<noteq> cols new_value then (Inl AssertionFailed, h)
      else (Inr (), h\<lparr>m_value := (m_value h)(this := new_value)\<rparr>))"

definition Type_set_fej :: "addr \<Rightarrow> matrix \<Rightarrow> heap \<Rightarrow> unit result" where
  "Type_set_fej this new_value h =
     (if rows (m_fej h this) \<noteq> rows new_value then (Inl AssertionFailed, h)
      else if cols (m_fej h this) \<noteq> cols new_value then (Inl AssertionFailed, h)
      else (Inr (), h\<lparr>m_fej := (m_fej h)(this := new_value)\<rparr>))"

text \<open>Modelled from the spec: Vec.h is missing. \<^verbatim>\<open>EuclideanBlock(n)\<close> has ambient and
  error dimension \<open>n\<close> and starts at zero.\<close>

definition Vec_new :: "nat \<Rightarrow> heap \<Rightarrow> addr \<times> heap" where
  "Vec_new n h =
     (case alloc h of (this, h1) \<Rightarrow>
        let h2 = Type_init this (of_nat n) h1
        in (this, h2\<lparr>m_value := (m_value h2)(this := zeros n 1),
                      m_fej := (m_fej h2)(this := zeros n 1)\<rparr>))"

text \<open>Modelled from the spec: JPLQuat.h is missing. \<^verbatim>\<open>UnitQuaternionBlock\<close> has ambient
  dimension 4 (scalar last), error dimension 3, and starts at the identity.\<close>

definition quat0 :: vector where
  "quat0 = [0, 0, 0, 1]"

definition JPLQuat_new :: "heap \<Rightarrow> addr \<times> heap" where
  "JPLQuat_new h =
     (case alloc h of (this, h1) \<Rightarrow>
        let h2 = Type_init this 3 h1
        in (this, h2\<lparr>m_value := (m_value h2)(this := as_matrix quat0),
                      m_fej := (m_fej h2)(this := as_matrix quat0)\<rparr>))"

definition JPLQuat_set_value :: "addr \<Rightarrow> matrix \<Rightarrow> heap \<Rightarrow> unit result" where
  "JPLQuat_set_value this new_value h =
     (if rows new_value \<noteq> 4 then (Inl AssertionFailed, h)
      else if cols new_value \<noteq> 1 then (Inl AssertionFailed, h)
      else (Inr (), h\<lparr>m_value := (m_value h)(this := new_value)\<rparr>))"

definition JPLQuat_set_fej :: "addr \<Rightarrow> matrix \<Rightarrow> heap \<Rightarrow> unit result" where
  "JPLQuat_set_fej this new_value h =
     (if rows new_value \<noteq> 4 then (Inl AssertionFailed, h)
      else if cols new_value \<noteq> 1 then (Inl AssertionFailed, h)
      else (Inr (), h\<lparr>m_fej := (m_fej h)(this := new_value)\<rparr>))"

text \<open>Modelled from the spec: PoseJPL.h is missing. \<^verbatim>\<open>PoseBlock\<close> owns a quaternion and a
  position, ambient 7 (quaternion first), error 6; its default is the identity
  orientation and the zero position; both children share the pose's covariance index;
  \<^verbatim>\<open>setValue\<close> distributes the sub-ranges \<open>[0:4)\<close> and \<open>[4:7)\<close> to the children and
  then stores the full vector; \<^verbatim>\<open>findSubblock\<close> compares the target with the two
  children; the accessor \<^verbatim>\<open>quat()\<close> reads the orientation child.\<close>

definition pose0 :: vector where
  "pose0 = [0, 0, 0, 1, 0, 0, 0]"

definition PoseJPL_set_value :: "addr \<Rightarrow> matrix \<Rightarrow> heap \<Rightarrow> unit result" where
  "PoseJPL_set_value this new_value h =
     (if rows new_value \<noteq> 7 then (Inl AssertionFailed, h)
      else if cols new_value \<noteq> 1 then (Inl AssertionFailed, h)
      else seq (JPLQuat_set_value (m_q h this) (block 0 0 4 1 new_value))
          (seq (Type_set_value (m_p h this) (block 4 0 3 1 new_value))
               (\<lambda>h'. (Inr (), h'\<lparr>m_value := (m_value h')(this := new_value)\<rparr>))) h)"

definition PoseJPL_set_fej :: "addr \<Rightarrow> matrix \<Rightarrow> heap \<Rightarrow> unit result" where
  "PoseJPL_set_fej this new_value h =
     (if rows new_value \<noteq> 7 then (Inl AssertionFailed, h)
      else if cols new_value \<noteq> 1 then (Inl AssertionFailed, h)
      else seq (JPLQuat_set_fej (m_q h this) (block 0 0 4 1 new_value))
          (seq (Type_set_fej (m_p h this) (block 4 0 3 1 new_value))
               (\<lambda>h'. (Inr (), h'\<lparr>m_fej := (m_fej h')(this := new_value)\<rparr>))) h)"

definition PoseJPL_new :: "heap \<Rightarrow> addr result" where
  "PoseJPL_new h =
     (case alloc h of (this, h1) \<Rightarrow>
        let h2 = Type_init this 6 h1 in
        case JPLQuat_new h2 of (q, h3) \<Rightarrow>
        case Vec_new 3 (h3\<lparr>m_q := (m_q h3)(this := q)\<rparr>) of (p, h4) \<Rightarrow>
          seq (PoseJPL_set_value this (as_matrix pose0))
         (seq (PoseJPL_set_fej this (as_matrix pose0))
              (\<lambda>h'. (Inr this, h'))) (h4\<lparr>m_p := (m_p h4)(this := p)\<rparr>))"

definition PoseJPL_set_local_id :: "addr \<Rightarrow> cint \<Rightarrow> heap \<Rightarrow> heap" where
  "PoseJPL_set_local_id this new_id h =
     (let h1 = h\<lparr>m_id := (m_id h)(this := new_id)\<rparr>;
          h2 = Type_set_local_id (m_q h1 this) new_id h1
      in Type_set_local_id (m_p h2 this) new_id h2)"

definition PoseJPL_check_if_subvariable :: "addr \<Rightarrow> addr option \<Rightarrow> heap \<Rightarrow> addr option" where
  "PoseJPL_check_if_subvariable this check h =
     (if check = Some (m_q h this) then Some (m_q h this)
      else if check = Some (m_p h this) then Some (m_p h this)
      else None)"

definition PoseJPL_quat :: "addr \<Rightarrow> heap \<Rightarrow> vec4" where
  "PoseJPL_quat this h = vec4_of (as_vector (m_value h (m_q h this)))"

subsection \<open>class IMU\<close>

text \<open>The default state of the constructor: zero, with \<open>imu0(3) = imu0(19) = 1\<close>.\<close>

definition imu0 :: vector where
  "imu0 = (replicate 23 0)[3 := 1, 19 := 1]"

text \<open>The pointer members are written by the constructors only; a method reads them
  from the store it is entered with.\<close>

definition IMU_set_value_internal :: "addr \<Rightarrow> matrix \<Rightarrow> heap \<Rightarrow> unit result" where
  "IMU_set_value_internal this new_value h =
     (if rows new_value \<noteq> 23 then (Inl AssertionFailed, h)
      else if cols new_value \<noteq> 1 then (Inl AssertionFailed, h)
      else seq (PoseJPL_set_value (m_pose h this) (block 0 0 7 1 new_value))
          (seq (Type_set_value (m_v h this) (block 7 0 3 1 new_value))
          (seq (Type_set_value (m_bg h this) (block 10 0 3 1 new_value))
          (seq (Type_set_value (m_ba h this) (block 13 0 3 1 new_value))
          (seq (PoseJPL_set_value (m_keyframe_pose h this) (block 16 0 7 1 new_value))
               (\<lambda>h'. (Inr (), h'\<lparr>m_value := (m_value h')(this := new_value)\<rparr>)))))) h)"

definition IMU_set_fej_internal :: "addr \<Rightarrow> matrix \<Rightarrow> heap \<Rightarrow> unit result" where
  "IMU_set_fej_internal this new_value h =
     (if rows new_value \<noteq> 23 then (Inl AssertionFailed, h)
      else if cols new_value \<noteq> 1 then (Inl AssertionFailed, h)
      else seq (PoseJPL_set_fej (m_pose h this) (block 0 0 7 1 new_value))
          (seq (Type_set_fej (m_v h this) (block 7 0 3 1 new_value))
          (seq (Type_set_fej (m_bg h this) (block 10 0 3 1 new_value))
          (seq (Type_set_fej (m_ba h this) (block 13 0 3 1 new_value))
          (seq (PoseJPL_set_fej (m_keyframe_pose h this) (block 16 0 7 1 new_value))
               (\<lambda>h'. (Inr (), h'\<lparr>m_fej := (m_fej h')(this := new_value)\<rparr>)))))) h)"

definition IMU_set_value :: "addr \<Rightarrow> matrix \<Rightarrow> heap \<Rightarrow> unit result" where
  "IMU_set_value this new_value h = IMU_set_value_internal this new_value h"

definition IMU_set_fej :: "addr \<Rightarrow> matrix \<Rightarrow> heap \<Rightarrow> unit result" where
  "IMU_set_fej this new_value h = IMU_set_fej_internal this new_value h"

text \<open>\<^verbatim>\<open>new IMU()\<close>: the object itself is allocated first, then the constructor body
  allocates the five sub-variables in the order of the source.\<close>

definition IMU_new :: "heap \<Rightarrow> addr result" where
  "IMU_new h =
     (case alloc h of (this, h0) \<Rightarrow>
        bind_res PoseJPL_new (\<lambda>pose h1.
        case Vec_new 3 (h1\<lparr>m_pose := (m_pose h1)(this := pose)\<rparr>) of (v, h2) \<Rightarrow>
        case Vec_new 3 (h2\<lparr>m_v := (m_v h2)(this := v)\<rparr>) of (bg, h3) \<Rightarrow>
        case Vec_new 3 (h3\<lparr>m_bg := (m_bg h3)(this := bg)\<rparr>) of (ba, h4) \<Rightarrow>
        bind_res PoseJPL_new (\<lambda>kf h5.
          seq (IMU_set_value_internal this (as_matrix imu0))
         (seq (IMU_set_fej_internal this (as_matrix imu0))
              (\<lambda>h'. (Inr this, h')))
            (h5\<lparr>m_keyframe_pose := (m_keyframe_pose h5)(this := kf)\<rparr>))
          (h4\<lparr>m_ba := (m_ba h4)(this := ba)\<rparr>))
        (Type_init this 21 h0))"

definition IMU_set_local_id :: "addr \<Rightarrow> cint \<Rightarrow> heap \<Rightarrow> heap" where
  "IMU_set_local_id this new_id h =
     (let h1 = h\<lparr>m_id := (m_id h)(this := new_id)\<rparr>;
          h2 = PoseJPL_set_local_id (m_pose h1 this) new_id h1;
          h3 = Type_set_local_id (m_v h2 this)
                 (m_id h2 (m_pose h2 this) + (if new_id \<noteq> - 1 then m_size h2 (m_pose h2 this) else 0)) h2;
          h4 = Type_set_local_id (m_bg h3 this)
                 (m_id h3 (m_v h3 this) + (if new_id \<noteq> - 1 then m_size h3 (m_v h3 this) else 0)) h3;
          h5 = Type_set_local_id (m_ba h4 this)
                 (m_id h4 (m_bg h4 this) + (if new_id \<noteq> - 1 then m_size h4 (m_bg h4 this) else 0)) h4
      in PoseJPL_set_local_id (m_keyframe_pose h5 this)
           (m_id h5 (m_ba h5 this) + (if new_id \<noteq> - 1 then m_size h5 (m_ba h5 this) else 0)) h5)"

definition IMU_quat :: "addr \<Rightarrow> heap \<Rightarrow> vec4" where
  "IMU_quat this h = PoseJPL_quat (m_pose h this) h"

definition IMU_keyframe_quat :: "addr \<Rightarrow> heap \<Rightarrow> vec4" where
  "IMU_keyframe_quat this h = PoseJPL_quat (m_keyframe_pose h this) h"

text \<open>\<^verbatim>\<open>update\<close>. The helpers \<^verbatim>\<open>ov_core::quatnorm\<close> and \<^verbatim>\<open>ov_core::quat_multiply\<close> of
  utils/quat\_ops.h are not part of the sources at hand; they are the parameters
  \<open>quatnorm\<close> and \<open>quat_multiply\<close>.\<close>

definition IMU_update ::
  "(vec4 \<Rightarrow> vec4) \<Rightarrow> (vec4 \<Rightarrow> vec4 \<Rightarrow> vec4) \<Rightarrow> addr \<Rightarrow> vector \<Rightarrow> heap \<Rightarrow> unit result" where
  "IMU_update quatnorm quat_multiply this dx h =
     (if int (length dx) \<noteq> sint (m_size h this) then (Inl AssertionFailed, h)
      else
        let newX = as_vector (m_value h this);
            dq = quatnorm (vec4_of (map (\<lambda>x. 0.5 * x) (vblock 0 3 dx) @ [1]));
            d_keyframe_q = quatnorm (vec4_of (map (\<lambda>x. 0.5 * x) (vblock 15 3 dx) @ [1]));
            newX = vset_block 0 4 (list_of_vec4 (quat_multiply dq (IMU_quat this h))) newX;
            newX = vset_block 4 3 (vadd (vblock 4 3 newX) (vblock 3 3 dx)) newX;
            newX = vset_block 7 3 (vadd (vblock 7 3 newX) (vblock 6 3 dx)) newX;
            newX = vset_block 10 3 (vadd (vblock 10 3 newX) (vblock 9 3 dx)) newX;
            newX = vset_block 13 3 (vadd (vblock 13 3 newX) (vblock 12 3 dx)) newX;
            newX = vset_block 16 4
                     (list_of_vec4 (quat_multiply d_keyframe_q (IMU_keyframe_quat this h))) newX;
            newX = vset_block 20 3 (vadd (vblock 20 3 newX) (vblock 18 3 dx)) newX
        in IMU_set_value this (as_matrix newX) h)"

text \<open>\<^verbatim>\<open>reset_keyframe_states\<close>. The local \<^verbatim>\<open>PoseJPL new_keyframe\<close> is constructed in
  the store like any other object; it is unreachable once the call returns.\<close>

definition IMU_reset_keyframe_states :: "addr \<Rightarrow> heap \<Rightarrow> unit result" where
  "IMU_reset_keyframe_states this h =
     bind_res PoseJPL_new (\<lambda>new_keyframe.
       seq (\<lambda>h'. PoseJPL_set_value (m_keyframe_pose h' this) (m_value h' new_keyframe) h')
      (seq (\<lambda>h'. PoseJPL_set_fej (m_keyframe_pose h' this) (m_value h' new_keyframe) h')
           (\<lambda>h'. (Inr (),
              h'\<lparr>m_value := (m_value h')
                     (this := set_block 16 0 7 1 (m_value h' new_keyframe) (m_value h' this)),
                  m_fej := (m_fej h')
                     (this := set_block 16 0 7 1 (m_value h' new_keyframe) (m_fej h' this))\<rparr>)))) h"

definition IMU_clone :: "addr \<Rightarrow> heap \<Rightarrow> addr result" where
  "IMU_clone this h =
     bind_res IMU_new (\<lambda>Clone.
       seq (\<lambda>h'. IMU_set_value Clone (m_value h' this) h')
      (seq (\<lambda>h'. IMU_set_fej Clone (m_fej h' this) h')
           (\<lambda>h'. (Inr Clone, h')))) h"

text \<open>\<^verbatim>\<open>check_if_subvariable\<close>: a shared pointer is \<open>None\<close> (null) or an address.\<close>

definition IMU_check_if_subvariable :: "addr \<Rightarrow> addr option \<Rightarrow> heap \<Rightarrow> addr option" where
  "IMU_check_if_subvariable this check h =
     (if check = Some (m_pose h this) then Some (m_pose h this)
      else if check = PoseJPL_check_if_subvariable (m_pose h this) check h
        then PoseJPL_check_if_subvariable (m_pose h this) check h
      else if check = Some (m_v h this) then Some (m_v h this)
      else if check = Some (m_bg h this) then Some (m_bg h this)
      else if check = Some (m_ba h this) then Some (m_ba h this)
      else if check = Some (m_keyframe_pose h this) then Some (m_keyframe_pose h this)
      else if check = PoseJPL_check_if_subvariable (m_keyframe_pose h this) check h
        then PoseJPL_check_if_subvariable (m_keyframe_pose h this) check h
      else None)"

subsection \<open>Well-formed IMU objects\<close>

definition shape :: "nat \<Rightarrow> nat \<Rightarrow> matrix \<Rightarrow> bool" where
  "shape r c m \<longleftrightarrow> rows m = r \<and> cols m = c"

text \<open>The ten objects of an IMU: the block itself, the pose with its quaternion and
  position, velocity, the two biases, and the keyframe pose with its two children.\<close>

definition IMU_objects :: "heap \<Rightarrow> addr \<Rightarrow> addr list" where
  "IMU_objects h this =
     [this, m_pose h this, m_q h (m_pose h this), m_p h (m_pose h this),
      m_v h this, m_bg h this, m_ba h this,
      m_keyframe_pose h this, m_q h (m_keyframe_pose h this), m_p h (m_keyframe_pose h this)]"

text \<open>What the constructor establishes about the object graph and what no method of
  the classes can change: the ten objects are pairwise different and allocated, and
  each has the error dimension and the ambient shape of its class.\<close>

definition IMU_wf :: "heap \<Rightarrow> addr \<Rightarrow> bool" where
  "IMU_wf h this \<longleftrightarrow>
     distinct (IMU_objects h this) \<and>
     list_all (\<lambda>x. x < next_addr h) (IMU_objects h this) \<and>
     map (m_size h) (IMU_objects h this) = [21, 6, 3, 3, 3, 3, 3, 6, 3, 3] \<and>
     map (\<lambda>x. (rows (m_value h x), cols (m_value h x))) (IMU_objects h this) =
       [(23, 1), (7, 1), (4, 1), (3, 1), (3, 1), (3, 1), (3, 1), (7, 1), (4, 1), (3, 1)] \<and>
     map (\<lambda>x. (rows (m_fej h x), cols (m_fej h x))) (IMU_objects h this) =
       [(23, 1), (7, 1), (4, 1), (3, 1), (3, 1), (3, 1), (3, 1), (7, 1), (4, 1), (3, 1)]"

text \<open>Parent-child consistency: each child holds its sub-range of the flat vectors.\<close>

definition IMU_consistent :: "heap \<Rightarrow> addr \<Rightarrow> bool" where
  "IMU_consistent h this \<longleftrightarrow>
     m_value h (m_pose h this) = block 0 0 7 1 (m_value h this) \<and>
     m_value h (m_v h this) = block 7 0 3 1 (m_value h this) \<and>
     m_value h (m_bg h this) = block 10 0 3 1 (m_value h this) \<and>
     m_value h (m_ba h this) = block 13 0 3 1 (m_value h this) \<and>
     m_value h (m_keyframe_pose h this) = block 16 0 7 1 (m_value h this) \<and>
     m_fej h (m_pose h this) = block 0 0 7 1 (m_fej h this) \<and>
     m_fej h (m_v h this) = block 7 0 3 1 (m_fej h this) \<and>
     m_fej h (m_bg h this) = block 10 0 3 1 (m_fej h this) \<and>
     m_fej h (m_ba h this) = block 13 0 3 1 (m_fej h this) \<and>
     m_fej h (m_keyframe_pose h this) = block 16 0 7 1 (m_fej h this)"

definition IMU_inv :: "heap \<Rightarrow> addr \<Rightarrow> bool" where
  "IMU_inv h this \<longleftrightarrow> IMU_wf h this \<and> IMU_consistent h this"

subsection \<open>Quaternion helpers\<close>

text \<open>Modelled from the spec: utils/quat\_ops.h is missing. \<^verbatim>\<open>normalize\<close> divides a
  quaternion by its Euclidean norm; the composition is the product of unit quaternions
  in the scalar-last (JPL) convention, renormalised.\<close>

definition quatnorm :: "vec4 \<Rightarrow> vec4" where
  "quatnorm q = (case q of (x, y, z, w) \<Rightarrow>
     let n = sqrt (x * x + y * y + z * z + w * w) in (x / n, y / n, z / n, w / n))"

definition quat_multiply :: "vec4 \<Rightarrow> vec4 \<Rightarrow> vec4" where
  "quat_multiply q p = (case q of (q1, q2, q3, q4) \<Rightarrow> case p of (p1, p2, p3, p4) \<Rightarrow>
     quatnorm (q4 * p1 + q3 * p2 - q2 * p3 + q1 * p4,
               - q3 * p1 + q4 * p2 + q1 * p3 + q2 * p4,
               q2 * p1 - q1 * p2 + q4 * p3 + q3 * p4,
               - q1 * p1 - q2 * p2 - q3 * p3 + q4 * p4))"

subsection \<open>Sample stores\<close>

text \<open>A freshly constructed IMU at address 0, and the same IMU after
  \<^verbatim>\<open>set_value\<close> with a keyframe orientation \<open>[0.5, 0.5, 0.5, 0.5]\<close> and keyframe
  position \<open>[1, 2, 3]\<close>.\<close>

definition heap1 :: heap where
  "heap1 = snd (IMU_new empty_heap)"

definition value2 :: matrix where
  "value2 = [[0, 0, 0, 1, 4, 5, 6, 7, 8, 9, 1, 1, 1, 2, 2, 2, 0.5, 0.5, 0.5, 0.5, 1, 2, 3]]"

definition heap2 :: heap where
  "heap2 = snd (IMU_set_fej 0 value2 (snd (IMU_set_value 0 value2 heap1)))"

definition delta1 :: vector where
  "delta1 = [0, 0, 0, 1, 2, 3, 4, 5, 6, 7, 8, 9, 10, 11, 12, 0, 0, 0, 1, 1, 1]"

subsection \<open>The vector that update stores\<close>

text \<open>The seven block assignments of \<^verbatim>\<open>update\<close> written as one concatenation; lemma
  \<open>IMU_update_eq\<close> below proves that \<open>IMU_update\<close> passes exactly this vector to
  \<^verbatim>\<open>set_value\<close>.\<close>

definition IMU_update_value ::
  "(vec4 \<Rightarrow> vec4) \<Rightarrow> (vec4 \<Rightarrow> vec4 \<Rightarrow> vec4) \<Rightarrow> addr \<Rightarrow> vector \<Rightarrow> heap \<Rightarrow> vector" where
  "IMU_update_value qn qm this dx h =
     (let c = as_vector (m_value h this) in
      list_of_vec4 (qm (qn (0.5 * dx ! 0, 0.5 * dx ! 1, 0.5 * dx ! 2, 1)) (IMU_quat this h))
      @ vadd (vblock 4 3 c) (vblock 3 3 dx)
      @ vadd (vblock 7 3 c) (vblock 6 3 dx)
      @ vadd (vblock 10 3 c) (vblock 9 3 dx)
      @ vadd (vblock 13 3 c) (vblock 12 3 dx)
      @ list_of_vec4 (qm (qn (0.5 * dx ! 15, 0.5 * dx ! 16, 0.5 * dx ! 17, 1))
           (IMU_keyframe_quat this h))
      @ vadd (vblock 20 3 c) (vblock 18 3 dx))"

text \<open>The store with one member blanked out, to say that a call leaves every other
  member of every object as it was.\<close>

definition except_value :: "heap \<Rightarrow> heap" where
  "except_value h = h\<lparr>m_value := (\<lambda>_. [])\<rparr>"

definition except_fej :: "heap \<Rightarrow> heap" where
  "except_fej h = h\<lparr>m_fej := (\<lambda>_. [])\<rparr>"

text \<open>The first pointer of a list that is identical to \<open>check\<close>, or null.\<close>

primrec first_identical :: "addr option \<Rightarrow> addr list \<Rightarrow> addr option" where
  "first_identical check [] = None"
| "first_identical check (x # xs) = (if check = Some x then Some x else first_identical check xs)"

text \<open>Every member of every object allocated before address \<open>n\<close> is the same in both
  stores.\<close>

definition unchanged_below :: "addr \<Rightarrow> heap \<Rightarrow> heap \<Rightarrow> bool" where
  "unchanged_below n h h' \<longleftrightarrow>
     (\<forall>x<n. m_id h' x = m_id h x \<and> m_size h' x = m_size h x \<and>
        m_value h' x = m_value h x \<and> m_fej h' x = m_fej h x \<and>
        m_q h' x = m_q h x \<and> m_p h' x = m_p h x \<and> m_pose h' x = m_pose h x \<and>
        m_v h' x = m_v h x \<and> m_bg h' x = m_bg h x \<and> m_ba h' x = m_ba h x \<and>
        m_keyframe_pose h' x = m_keyframe_pose h x)"

text \<open>The IMU of \<open>heap2\<close> registered at covariance index 5.\<close>

definition heap3 :: heap where
  "heap3 = IMU_set_local_id 0 5 heap2"

text \<open>A correction with nonzero rotation parts: \<open>dx[0:3] = [1.5, 0, 0]\<close> and
  \<open>dx[15:18] = [0, 0, 1.5]\<close>.\<close>

definition delta2 :: vector where
  "delta2 = [1.5, 0, 0, 1, 2, 3, 4, 5, 6, 7, 8, 9, 10, 11, 12, 0, 0, 1.5, 1, 1, 1]"

section \<open>Facts about the model\<close>

subsection \<open>Vectors and blocks\<close>

lemma shape_col: "shape r (Suc 0) m \<longleftrightarrow> (\<exists>c. m = [c] \<and> length c = r)"
  by (cases m) (auto simp: shape_def rows_def cols_def)

lemma shape_as_matrix: "shape r (Suc 0) (as_matrix v) \<longleftrightarrow> length v = r"
  by (auto simp: shape_def rows_def cols_def as_matrix_def)

lemma shape_block:
  "shape r (Suc 0) m \<Longrightarrow> i + p \<le> r \<Longrightarrow> shape p (Suc 0) (block i 0 p (Suc 0) m)"
  by (auto simp: shape_col block_def)

lemma length_vset_block:
  "i + p \<le> length v \<Longrightarrow> p \<le> length b \<Longrightarrow> length (vset_block i p b v) = length v"
  by (simp add: vset_block_def)

lemma length_vblock: "i + p \<le> length v \<Longrightarrow> length (vblock i p v) = p"
  by (simp add: vblock_def)

lemma length_vadd: "length (vadd a b) = min (length a) (length b)"
  by (simp add: vadd_def)

lemma length_list_of_vec4: "length (list_of_vec4 q) = 4"
  by (cases q) (simp add: list_of_vec4_def)

lemma vblock_vset_block_same:
  "i + p \<le> length v \<Longrightarrow> length b = p \<Longrightarrow> vblock i p (vset_block i p b v) = b"
  by (simp add: vblock_def vset_block_def)

lemma vblock_vset_block_before:
  assumes "j + q \<le> i" "i + p \<le> length v"
  shows "vblock j q (vset_block i p b v) = vblock j q v"
proof -
  have "take q (drop j (take i v @ r)) = take q (drop j (take i v))" for r
    using assms by simp
  moreover have "take q (drop j (take i v)) = take q (drop j v)"
    using assms by (simp add: drop_take)
  ultimately show ?thesis
    by (simp only: vblock_def vset_block_def)
qed

lemma vblock_vset_block_after:
  "i + p \<le> j \<Longrightarrow> i + p \<le> length v \<Longrightarrow> length b = p \<Longrightarrow>
   vblock j q (vset_block i p b v) = vblock j q v"
  by (simp add: vblock_def vset_block_def)

lemmas vector_simps = length_vset_block length_vblock length_vadd length_list_of_vec4
  vblock_vset_block_same vblock_vset_block_before vblock_vset_block_after


subsection \<open>PoseJPL\<close>

lemma PoseJPL_set_value_fail:
  "\<not> shape 7 1 new_value \<Longrightarrow> PoseJPL_set_value this new_value h = (Inl AssertionFailed, h)"
  by (auto simp add: PoseJPL_set_value_def shape_def)

lemma PoseJPL_set_fej_fail:
  "\<not> shape 7 1 new_value \<Longrightarrow> PoseJPL_set_fej this new_value h = (Inl AssertionFailed, h)"
  by (auto simp add: PoseJPL_set_fej_def shape_def)

lemma PoseJPL_new_eq:
  "PoseJPL_new h = (Inr (next_addr h),
     h\<lparr>next_addr := next_addr h + 3,
       m_id := (m_id h)(next_addr h := - 1, next_addr h + 1 := - 1, next_addr h + 2 := - 1),
       m_size := (m_size h)(next_addr h := 6, next_addr h + 1 := 3, next_addr h + 2 := 3),
       m_value := (m_value h)(next_addr h + 1 := [[0, 0, 0, 1]], next_addr h + 2 := [[0, 0, 0]],
                              next_addr h := [pose0]),
       m_fej := (m_fej h)(next_addr h + 1 := [[0, 0, 0, 1]], next_addr h + 2 := [[0, 0, 0]],
                              next_addr h := [pose0]),
       m_q := (m_q h)(next_addr h := next_addr h + 1),
       m_p := (m_p h)(next_addr h := next_addr h + 2)\<rparr>)"
  by (simp add: PoseJPL_new_def alloc_def Type_init_def Vec_new_def JPLQuat_new_def Let_def
      PoseJPL_set_value_def PoseJPL_set_fej_def seq_def JPLQuat_set_value_def JPLQuat_set_fej_def
      Type_set_value_def Type_set_fej_def
      rows_def cols_def as_matrix_def zeros_def block_def pose0_def quat0_def)

subsection \<open>Distinct objects\<close>

lemma IMU_wf_distinct: "IMU_wf h this \<Longrightarrow> distinct (IMU_objects h this)"
  by (simp add: IMU_wf_def)

lemma IMU_wf_neq_fwd:
  assumes "IMU_wf h this"
  shows
    "this \<noteq> m_pose h this" "this \<noteq> m_q h (m_pose h this)"
    "this \<noteq> m_p h (m_pose h this)" "this \<noteq> m_v h this"
    "this \<noteq> m_bg h this" "this \<noteq> m_ba h this"
    "this \<noteq> m_keyframe_pose h this" "this \<noteq> m_q h (m_keyframe_pose h this)"
    "this \<noteq> m_p h (m_keyframe_pose h this)" "m_pose h this \<noteq> m_q h (m_pose h this)"
    "m_pose h this \<noteq> m_p h (m_pose h this)" "m_pose h this \<noteq> m_v h this"
    "m_pose h this \<noteq> m_bg h this" "m_pose h this \<noteq> m_ba h this"
    "m_pose h this \<noteq> m_keyframe_pose h this" "m_pose h this \<noteq> m_q h (m_keyframe_pose h this)"
    "m_pose h this \<noteq> m_p h (m_keyframe_pose h this)" "m_q h (m_pose h this) \<noteq> m_p h (m_pose h this)"
    "m_q h (m_pose h this) \<noteq> m_v h this" "m_q h (m_pose h this) \<noteq> m_bg h this"
    "m_q h (m_pose h this) \<noteq> m_ba h this" "m_q h (m_pose h this) \<noteq> m_keyframe_pose h this"
    "m_q h (m_pose h this) \<noteq> m_q h (m_keyframe_pose h this)" "m_q h (m_pose h this) \<noteq> m_p h (m_keyframe_pose h this)"
    "m_p h (m_pose h this) \<noteq> m_v h this" "m_p h (m_pose h this) \<noteq> m_bg h this"
    "m_p h (m_pose h this) \<noteq> m_ba h this" "m_p h (m_pose h this) \<noteq> m_keyframe_pose h this"
    "m_p h (m_pose h this) \<noteq> m_q h (m_keyframe_pose h this)" "m_p h (m_pose h this) \<noteq> m_p h (m_keyframe_pose h this)"
    "m_v h this \<noteq> m_bg h this" "m_v h this \<noteq> m_ba h this"
    "m_v h this \<noteq> m_keyframe_pose h this" "m_v h this \<noteq> m_q h (m_keyframe_pose h this)"
    "m_v h this \<noteq> m_p h (m_keyframe_pose h this)" "m_bg h this \<noteq> m_ba h this"
    "m_bg h this \<noteq> m_keyframe_pose h this" "m_bg h this \<noteq> m_q h (m_keyframe_pose h this)"
    "m_bg h this \<noteq> m_p h (m_keyframe_pose h this)" "m_ba h this \<noteq> m_keyframe_pose h this"
    "m_ba h this \<noteq> m_q h (m_keyframe_pose h this)" "m_ba h this \<noteq> m_p h (m_keyframe_pose h this)"
    "m_keyframe_pose h this \<noteq> m_q h (m_keyframe_pose h this)" "m_keyframe_pose h this \<noteq> m_p h (m_keyframe_pose h this)"
    "m_q h (m_keyframe_pose h this) \<noteq> m_p h (m_keyframe_pose h this)"
  using IMU_wf_distinct [OF assms] by (simp_all add: IMU_objects_def)

lemmas IMU_wf_neq = IMU_wf_neq_fwd IMU_wf_neq_fwd [THEN not_sym]

subsection \<open>Setting value and linearization value\<close>

lemma IMU_set_value_internal_ok:
  assumes "IMU_wf h this" "shape 23 1 new_value"
  shows "IMU_set_value_internal this new_value h =
    (Inr (), h\<lparr>m_value := (m_value h)
       (m_q h (m_pose h this) := block 0 0 4 1 (block 0 0 7 1 new_value),
        m_p h (m_pose h this) := block 4 0 3 1 (block 0 0 7 1 new_value),
        m_pose h this := block 0 0 7 1 new_value,
        m_v h this := block 7 0 3 1 new_value,
        m_bg h this := block 10 0 3 1 new_value,
        m_ba h this := block 13 0 3 1 new_value,
        m_q h (m_keyframe_pose h this) := block 0 0 4 1 (block 16 0 7 1 new_value),
        m_p h (m_keyframe_pose h this) := block 4 0 3 1 (block 16 0 7 1 new_value),
        m_keyframe_pose h this := block 16 0 7 1 new_value,
        this := new_value)\<rparr>)"
  using assms
  apply (clarsimp simp: shape_col IMU_wf_def IMU_objects_def)
  apply (simp add: IMU_set_value_internal_def PoseJPL_set_value_def seq_def JPLQuat_set_value_def
      Type_set_value_def rows_def cols_def block_def)
  done

lemma IMU_set_fej_internal_ok:
  assumes "IMU_wf h this" "shape 23 1 new_value"
  shows "IMU_set_fej_internal this new_value h =
    (Inr (), h\<lparr>m_fej := (m_fej h)
       (m_q h (m_pose h this) := block 0 0 4 1 (block 0 0 7 1 new_value),
        m_p h (m_pose h this) := block 4 0 3 1 (block 0 0 7 1 new_value),
        m_pose h this := block 0 0 7 1 new_value,
        m_v h this := block 7 0 3 1 new_value,
        m_bg h this := block 10 0 3 1 new_value,
        m_ba h this := block 13 0 3 1 new_value,
        m_q h (m_keyframe_pose h this) := block 0 0 4 1 (block 16 0 7 1 new_value),
        m_p h (m_keyframe_pose h this) := block 4 0 3 1 (block 16 0 7 1 new_value),
        m_keyframe_pose h this := block 16 0 7 1 new_value,
        this := new_value)\<rparr>)"
  using assms
  apply (clarsimp simp: shape_col IMU_wf_def IMU_objects_def)
  apply (simp add: IMU_set_fej_internal_def PoseJPL_set_fej_def seq_def JPLQuat_set_fej_def
      Type_set_fej_def rows_def cols_def block_def)
  done

lemma IMU_set_value_internal_fail:
  "\<not> shape 23 1 new_value \<Longrightarrow> IMU_set_value_internal this new_value h = (Inl AssertionFailed, h)"
  by (auto simp add: IMU_set_value_internal_def shape_def)

lemma IMU_set_fej_internal_fail:
  "\<not> shape 23 1 new_value \<Longrightarrow> IMU_set_fej_internal this new_value h = (Inl AssertionFailed, h)"
  by (auto simp add: IMU_set_fej_internal_def shape_def)

lemma IMU_wf_set_value:
  assumes "IMU_wf h this"
  shows "IMU_wf (snd (IMU_set_value this new_value h)) this"
proof (cases "shape 23 1 new_value")
  case True
  then obtain c where c: "new_value = [c]" "length c = 23" by (auto simp: shape_col)
  show ?thesis
    unfolding IMU_set_value_def IMU_set_value_internal_ok [OF assms True]
    using assms IMU_wf_neq [OF assms] c
    by (simp add: IMU_wf_def IMU_objects_def rows_def cols_def block_def)
next
  case False
  then show ?thesis
    using assms by (simp add: IMU_set_value_def IMU_set_value_internal_fail)
qed

lemma IMU_wf_set_fej:
  assumes "IMU_wf h this"
  shows "IMU_wf (snd (IMU_set_fej this new_value h)) this"
proof (cases "shape 23 1 new_value")
  case True
  then obtain c where c: "new_value = [c]" "length c = 23" by (auto simp: shape_col)
  show ?thesis
    unfolding IMU_set_fej_def IMU_set_fej_internal_ok [OF assms True]
    using assms IMU_wf_neq [OF assms] c
    by (simp add: IMU_wf_def IMU_objects_def rows_def cols_def block_def)
next
  case False
  then show ?thesis
    using assms by (simp add: IMU_set_fej_def IMU_set_fej_internal_fail)
qed

subsection \<open>The constructor\<close>

lemma imu0_eq: "imu0 = [0,0,0,1,0,0,0, 0,0,0, 0,0,0, 0,0,0, 0,0,0,1,0,0,0]"
  by (simp add: imu0_def numeral_eq_Suc)

lemma IMU_new_eq:
  "IMU_new h = (Inr (next_addr h),
     h\<lparr>next_addr := next_addr h + 10,
       m_id := (m_id h)(next_addr h := - 1, next_addr h + 1 := - 1, next_addr h + 2 := - 1,
          next_addr h + 3 := - 1, next_addr h + 4 := - 1, next_addr h + 5 := - 1,
          next_addr h + 6 := - 1, next_addr h + 7 := - 1, next_addr h + 8 := - 1,
          next_addr h + 9 := - 1),
       m_size := (m_size h)(next_addr h := 21, next_addr h + 1 := 6, next_addr h + 2 := 3,
          next_addr h + 3 := 3, next_addr h + 4 := 3, next_addr h + 5 := 3,
          next_addr h + 6 := 3, next_addr h + 7 := 6, next_addr h + 8 := 3,
          next_addr h + 9 := 3),
       m_value := (m_value h)(next_addr h := [imu0], next_addr h + 1 := [pose0],
          next_addr h + 2 := [quat0], next_addr h + 3 := [[0, 0, 0]],
          next_addr h + 4 := [[0, 0, 0]], next_addr h + 5 := [[0, 0, 0]],
          next_addr h + 6 := [[0, 0, 0]], next_addr h + 7 := [pose0],
          next_addr h + 8 := [quat0], next_addr h + 9 := [[0, 0, 0]]),
       m_fej := (m_fej h)(next_addr h := [imu0], next_addr h + 1 := [pose0],
          next_addr h + 2 := [quat0], next_addr h + 3 := [[0, 0, 0]],
          next_addr h + 4 := [[0, 0, 0]], next_addr h + 5 := [[0, 0, 0]],
          next_addr h + 6 := [[0, 0, 0]], next_addr h + 7 := [pose0],
          next_addr h + 8 := [quat0], next_addr h + 9 := [[0, 0, 0]]),
       m_q := (m_q h)(next_addr h + 1 := next_addr h + 2, next_addr h + 7 := next_addr h + 8),
       m_p := (m_p h)(next_addr h + 1 := next_addr h + 3, next_addr h + 7 := next_addr h + 9),
       m_pose := (m_pose h)(next_addr h := next_addr h + 1),
       m_v := (m_v h)(next_addr h := next_addr h + 4),
       m_bg := (m_bg h)(next_addr h := next_addr h + 5),
       m_ba := (m_ba h)(next_addr h := next_addr h + 6),
       m_keyframe_pose := (m_keyframe_pose h)(next_addr h := next_addr h + 7)\<rparr>)"
  apply (simp add: IMU_new_def alloc_def bind_res_def PoseJPL_new_eq Vec_new_def Type_init_def
      Let_def zeros_def)
  apply (simp add: IMU_set_value_internal_def IMU_set_fej_internal_def PoseJPL_set_value_def
      PoseJPL_set_fej_def seq_def JPLQuat_set_value_def JPLQuat_set_fej_def Type_set_value_def
      Type_set_fej_def rows_def cols_def block_def as_matrix_def imu0_eq pose0_def quat0_def)
  apply (rule heap.equality; simp; rule ext; simp)
  done


lemma IMU_new_wf: "IMU_wf (snd (IMU_new h)) (next_addr h)"
  by (simp add: IMU_new_eq IMU_wf_def IMU_objects_def rows_def cols_def imu0_eq pose0_def quat0_def)

lemma IMU_new_consistent: "IMU_consistent (snd (IMU_new h)) (next_addr h)"
  by (simp add: IMU_new_eq IMU_consistent_def block_def imu0_eq pose0_def)

lemma IMU_wf_value: "IMU_wf h this \<Longrightarrow> \<exists>c. m_value h this = [c] \<and> length c = 23"
  using shape_col [of 23 "m_value h this"] by (simp add: IMU_wf_def IMU_objects_def shape_def)

lemma IMU_wf_fej: "IMU_wf h this \<Longrightarrow> \<exists>c. m_fej h this = [c] \<and> length c = 23"
  using shape_col [of 23 "m_fej h this"] by (simp add: IMU_wf_def IMU_objects_def shape_def)

lemma IMU_wf_size: "IMU_wf h this \<Longrightarrow> m_size h this = 21"
  by (simp add: IMU_wf_def IMU_objects_def)

lemma vset_block_append:
  "length pre = i \<Longrightarrow> length b = p \<Longrightarrow> vset_block i p b (pre @ rest) = pre @ b @ drop p rest"
  by (simp add: vset_block_def)

lemma vblock_append: "length pre = i \<Longrightarrow> vblock i p (pre @ rest) = take p rest"
  by (simp add: vblock_def)

lemma IMU_update_eq:
  assumes "IMU_wf h this" "length dx = 21"
  shows "IMU_update qn qm this dx h =
     IMU_set_value this (as_matrix (IMU_update_value qn qm this dx h)) h"
proof -
  obtain c where c: "m_value h this = [c]" "length c = 23"
    using IMU_wf_value [OF assms(1)] by blast
  define q where "q = list_of_vec4 (qm (qn (vec4_of (map (\<lambda>x. 0.5 * x) (vblock 0 3 dx) @ [1]))) (IMU_quat this h))"
  define k where "k = list_of_vec4 (qm (qn (vec4_of (map (\<lambda>x. 0.5 * x) (vblock 15 3 dx) @ [1]))) (IMU_keyframe_quat this h))"
  define a1 where "a1 = vadd (vblock 4 3 c) (vblock 3 3 dx)"
  define a2 where "a2 = vadd (vblock 7 3 c) (vblock 6 3 dx)"
  define a3 where "a3 = vadd (vblock 10 3 c) (vblock 9 3 dx)"
  define a4 where "a4 = vadd (vblock 13 3 c) (vblock 12 3 dx)"
  define a5 where "a5 = vadd (vblock 20 3 c) (vblock 18 3 dx)"
  have lq: "length q = 4" "length k = 4"
    by (simp_all add: q_def k_def length_list_of_vec4)
  have la: "length a1 = 3" "length a2 = 3" "length a3 = 3" "length a4 = 3" "length a5 = 3"
    using c(2) assms(2) by (simp_all add: a1_def a2_def a3_def a4_def a5_def length_vadd vblock_def)
  define X1 where "X1 = vset_block 0 4 q c"
  define X2 where "X2 = vset_block 4 3 (vadd (vblock 4 3 X1) (vblock 3 3 dx)) X1"
  define X3 where "X3 = vset_block 7 3 (vadd (vblock 7 3 X2) (vblock 6 3 dx)) X2"
  define X4 where "X4 = vset_block 10 3 (vadd (vblock 10 3 X3) (vblock 9 3 dx)) X3"
  define X5 where "X5 = vset_block 13 3 (vadd (vblock 13 3 X4) (vblock 12 3 dx)) X4"
  define X6 where "X6 = vset_block 16 4 k X5"
  define X7 where "X7 = vset_block 20 3 (vadd (vblock 20 3 X6) (vblock 18 3 dx)) X6"
  have X1: "X1 = q @ drop 4 c"
    unfolding X1_def using vset_block_append [of "[]" 0 q 4 c] lq by simp
  have b2: "vblock 4 3 X1 = vblock 4 3 c"
    unfolding X1 using vblock_append [of q 4 3 "drop 4 c"] lq by (simp add: vblock_def)
  have X2: "X2 = q @ a1 @ drop 7 c"
    unfolding X2_def b2 unfolding a1_def [symmetric] X1
    using vset_block_append [of q 4 a1 3 "drop 4 c"] lq la by simp
  have b3: "vblock 7 3 X2 = vblock 7 3 c"
    unfolding X2 using vblock_append [of "q @ a1" 7 3 "drop 7 c"] lq la by (simp add: vblock_def)
  have X3: "X3 = q @ a1 @ a2 @ drop 10 c"
    unfolding X3_def b3 unfolding a2_def [symmetric] X2
    using vset_block_append [of "q @ a1" 7 a2 3 "drop 7 c"] lq la by simp
  have b4: "vblock 10 3 X3 = vblock 10 3 c"
    unfolding X3 using vblock_append [of "q @ a1 @ a2" 10 3 "drop 10 c"] lq la by (simp add: vblock_def)
  have X4: "X4 = q @ a1 @ a2 @ a3 @ drop 13 c"
    unfolding X4_def b4 unfolding a3_def [symmetric] X3
    using vset_block_append [of "q @ a1 @ a2" 10 a3 3 "drop 10 c"] lq la by simp
  have b5: "vblock 13 3 X4 = vblock 13 3 c"
    unfolding X4 using vblock_append [of "q @ a1 @ a2 @ a3" 13 3 "drop 13 c"] lq la by (simp add: vblock_def)
  have X5: "X5 = q @ a1 @ a2 @ a3 @ a4 @ drop 16 c"
    unfolding X5_def b5 unfolding a4_def [symmetric] X4
    using vset_block_append [of "q @ a1 @ a2 @ a3" 13 a4 3 "drop 13 c"] lq la by simp
  have X6: "X6 = q @ a1 @ a2 @ a3 @ a4 @ k @ drop 20 c"
    unfolding X6_def X5
    using vset_block_append [of "q @ a1 @ a2 @ a3 @ a4" 16 k 4 "drop 16 c"] lq la by simp
  have b7: "vblock 20 3 X6 = vblock 20 3 c"
    unfolding X6 using vblock_append [of "q @ a1 @ a2 @ a3 @ a4 @ k" 20 3 "drop 20 c"] lq la by (simp add: vblock_def)
  have X7: "X7 = q @ a1 @ a2 @ a3 @ a4 @ k @ a5"
    unfolding X7_def b7 unfolding a5_def [symmetric] X6
    using vset_block_append [of "q @ a1 @ a2 @ a3 @ a4 @ k" 20 a5 3 "drop 20 c"] lq la c(2) by simp
  have "IMU_update qn qm this dx h = IMU_set_value this (as_matrix X7) h"
    unfolding IMU_update_def X7_def X6_def X5_def X4_def X3_def X2_def X1_def q_def k_def Let_def
    using assms(2) c(1) IMU_wf_size [OF assms(1)] by (simp add: as_vector_def)
  also have "X7 = IMU_update_value qn qm this dx h"
  proof -
    have h0: "vec4_of (map (\<lambda>x. 0.5 * x) (vblock 0 3 dx) @ [1]) =
        (0.5 * dx ! 0, 0.5 * dx ! 1, 0.5 * dx ! 2, 1)"
      using assms(2) by (simp add: vec4_of_def vblock_def nth_append)
    have h15: "vec4_of (map (\<lambda>x. 0.5 * x) (vblock 15 3 dx) @ [1]) =
        (0.5 * dx ! 15, 0.5 * dx ! 16, 0.5 * dx ! 17, 1)"
      using assms(2) by (simp add: vec4_of_def vblock_def nth_append)
    have av: "as_vector (m_value h this) = c"
      using c(1) by (simp add: as_vector_def)
    show ?thesis
      unfolding X7 IMU_update_value_def Let_def q_def k_def a1_def a2_def a3_def a4_def a5_def
        h0 h15 av ..
  qed
  finally show ?thesis .
qed

lemma IMU_set_value_fields:
  assumes "IMU_wf h this" "shape 23 1 v"
  shows "fst (IMU_set_value this v h) = Inr ()"
    "m_value (snd (IMU_set_value this v h)) this = v"
    "m_value (snd (IMU_set_value this v h)) (m_pose h this) = block 0 0 7 1 v"
    "m_value (snd (IMU_set_value this v h)) (m_q h (m_pose h this)) = block 0 0 4 1 (block 0 0 7 1 v)"
    "m_value (snd (IMU_set_value this v h)) (m_p h (m_pose h this)) = block 4 0 3 1 (block 0 0 7 1 v)"
    "m_value (snd (IMU_set_value this v h)) (m_v h this) = block 7 0 3 1 v"
    "m_value (snd (IMU_set_value this v h)) (m_bg h this) = block 10 0 3 1 v"
    "m_value (snd (IMU_set_value this v h)) (m_ba h this) = block 13 0 3 1 v"
    "m_value (snd (IMU_set_value this v h)) (m_keyframe_pose h this) = block 16 0 7 1 v"
    "m_value (snd (IMU_set_value this v h)) (m_q h (m_keyframe_pose h this)) = block 0 0 4 1 (block 16 0 7 1 v)"
    "m_value (snd (IMU_set_value this v h)) (m_p h (m_keyframe_pose h this)) = block 4 0 3 1 (block 16 0 7 1 v)"
  unfolding IMU_set_value_def IMU_set_value_internal_ok [OF assms]
  using IMU_wf_neq [OF assms(1)] by simp_all

lemma IMU_set_fej_fields:
  assumes "IMU_wf h this" "shape 23 1 v"
  shows "fst (IMU_set_fej this v h) = Inr ()"
    "m_fej (snd (IMU_set_fej this v h)) this = v"
    "m_fej (snd (IMU_set_fej this v h)) (m_pose h this) = block 0 0 7 1 v"
    "m_fej (snd (IMU_set_fej this v h)) (m_q h (m_pose h this)) = block 0 0 4 1 (block 0 0 7 1 v)"
    "m_fej (snd (IMU_set_fej this v h)) (m_p h (m_pose h this)) = block 4 0 3 1 (block 0 0 7 1 v)"
    "m_fej (snd (IMU_set_fej this v h)) (m_v h this) = block 7 0 3 1 v"
    "m_fej (snd (IMU_set_fej this v h)) (m_bg h this) = block 10 0 3 1 v"
    "m_fej (snd (IMU_set_fej this v h)) (m_ba h this) = block 13 0 3 1 v"
    "m_fej (snd (IMU_set_fej this v h)) (m_keyframe_pose h this) = block 16 0 7 1 v"
    "m_fej (snd (IMU_set_fej this v h)) (m_q h (m_keyframe_pose h this)) = block 0 0 4 1 (block 16 0 7 1 v)"
    "m_fej (snd (IMU_set_fej this v h)) (m_p h (m_keyframe_pose h this)) = block 4 0 3 1 (block 16 0 7 1 v)"
  unfolding IMU_set_fej_def IMU_set_fej_internal_ok [OF assms]
  using IMU_wf_neq [OF assms(1)] by simp_all

lemma heap1_wf: "IMU_wf heap1 0"
  using IMU_new_wf [of empty_heap] by (simp add: heap1_def empty_heap_def)

lemma shape_value2: "shape 23 1 value2"
  by (simp add: shape_def rows_def cols_def value2_def)

lemma IMU_wf_sizes:
  assumes "IMU_wf h this"
  shows "m_size h this = 21" "m_size h (m_pose h this) = 6" "m_size h (m_v h this) = 3"
    "m_size h (m_bg h this) = 3" "m_size h (m_ba h this) = 3" "m_size h (m_keyframe_pose h this) = 6"
  using assms by (simp_all add: IMU_wf_def IMU_objects_def)

lemma IMU_set_local_id_eq:
  assumes "IMU_wf h this"
  shows "IMU_set_local_id this i h =
    h\<lparr>m_id := (m_id h)
      (this := i,
       m_pose h this := i,
       m_q h (m_pose h this) := i,
       m_p h (m_pose h this) := i,
       m_v h this := i + (if i \<noteq> - 1 then 6 else 0),
       m_bg h this := i + (if i \<noteq> - 1 then 6 else 0) + (if i \<noteq> - 1 then 3 else 0),
       m_ba h this := i + (if i \<noteq> - 1 then 6 else 0) + (if i \<noteq> - 1 then 3 else 0)
                        + (if i \<noteq> - 1 then 3 else 0),
       m_keyframe_pose h this := i + (if i \<noteq> - 1 then 6 else 0) + (if i \<noteq> - 1 then 3 else 0)
                        + (if i \<noteq> - 1 then 3 else 0) + (if i \<noteq> - 1 then 3 else 0),
       m_q h (m_keyframe_pose h this) := i + (if i \<noteq> - 1 then 6 else 0) + (if i \<noteq> - 1 then 3 else 0)
                        + (if i \<noteq> - 1 then 3 else 0) + (if i \<noteq> - 1 then 3 else 0),
       m_p h (m_keyframe_pose h this) := i + (if i \<noteq> - 1 then 6 else 0) + (if i \<noteq> - 1 then 3 else 0)
                        + (if i \<noteq> - 1 then 3 else 0) + (if i \<noteq> - 1 then 3 else 0))\<rparr>"
proof (cases "i = - 1")
  case True
  show ?thesis
    using IMU_wf_neq [OF assms]
    by (simp add: True IMU_set_local_id_def PoseJPL_set_local_id_def Type_set_local_id_def Let_def)
next
  case False
  show ?thesis
    using IMU_wf_neq [OF assms] IMU_wf_sizes [OF assms] False
    by (simp add: IMU_set_local_id_def PoseJPL_set_local_id_def Type_set_local_id_def Let_def)
qed

lemma IMU_set_local_id_frame:
  "next_addr (IMU_set_local_id this i h) = next_addr h"
  "m_size (IMU_set_local_id this i h) = m_size h"
  "m_value (IMU_set_local_id this i h) = m_value h"
  "m_fej (IMU_set_local_id this i h) = m_fej h"
  "m_q (IMU_set_local_id this i h) = m_q h"
  "m_p (IMU_set_local_id this i h) = m_p h"
  "m_pose (IMU_set_local_id this i h) = m_pose h"
  "m_v (IMU_set_local_id this i h) = m_v h"
  "m_bg (IMU_set_local_id this i h) = m_bg h"
  "m_ba (IMU_set_local_id this i h) = m_ba h"
  "m_keyframe_pose (IMU_set_local_id this i h) = m_keyframe_pose h"
  by (simp_all add: IMU_set_local_id_def PoseJPL_set_local_id_def Type_set_local_id_def Let_def)

lemma heap1_ptrs:
  "m_pose heap1 0 = 1" "m_q heap1 (Suc 0) = 2" "m_p heap1 (Suc 0) = 3" "m_v heap1 0 = 4" "m_bg heap1 0 = 5"
  "m_ba heap1 0 = 6" "m_keyframe_pose heap1 0 = 7" "m_q heap1 7 = 8" "m_p heap1 7 = 9"
  by (simp_all add: heap1_def IMU_new_eq empty_heap_def)

lemma seq_frame:
  assumes "\<And>h. F (snd (f h)) = F h" "\<And>h. F (snd (g h)) = F h"
  shows "F (snd (seq f g h)) = F h"
proof (cases "f h")
  case (Pair r h')
  then have "F h' = F h" using assms(1) [of h] by simp
  then show ?thesis
    using Pair assms(2) [of h'] by (cases r) (simp_all add: seq_def)
qed

lemma Type_set_value_frame: "except_value (snd (Type_set_value a v h)) = except_value h"
  by (simp add: Type_set_value_def except_value_def)

lemma JPLQuat_set_value_frame: "except_value (snd (JPLQuat_set_value a v h)) = except_value h"
  by (simp add: JPLQuat_set_value_def except_value_def)

lemma except_value_store: "except_value (h\<lparr>m_value := f\<rparr>) = except_value h"
  by (simp add: except_value_def)

lemma except_fej_store: "except_fej (h\<lparr>m_fej := f\<rparr>) = except_fej h"
  by (simp add: except_fej_def)

lemma PoseJPL_set_value_frame: "except_value (snd (PoseJPL_set_value a v h)) = except_value h"
  unfolding PoseJPL_set_value_def
  by (auto intro!: seq_frame [where F = except_value] Type_set_value_frame JPLQuat_set_value_frame
      simp: except_value_store)

lemma IMU_set_value_frame: "except_value (snd (IMU_set_value a v h)) = except_value h"
  unfolding IMU_set_value_def IMU_set_value_internal_def
  by (auto intro!: seq_frame [where F = except_value] Type_set_value_frame PoseJPL_set_value_frame
      simp: except_value_store)

lemma IMU_update_frame: "except_value (snd (IMU_update qn qm a dx h)) = except_value h"
  unfolding IMU_update_def by (simp add: Let_def IMU_set_value_frame)

lemma Type_set_fej_frame: "except_fej (snd (Type_set_fej a v h)) = except_fej h"
  by (simp add: Type_set_fej_def except_fej_def)

lemma JPLQuat_set_fej_frame: "except_fej (snd (JPLQuat_set_fej a v h)) = except_fej h"
  by (simp add: JPLQuat_set_fej_def except_fej_def)

lemma PoseJPL_set_fej_frame: "except_fej (snd (PoseJPL_set_fej a v h)) = except_fej h"
  unfolding PoseJPL_set_fej_def
  by (auto intro!: seq_frame [where F = except_fej] Type_set_fej_frame JPLQuat_set_fej_frame
      simp: except_fej_store)

lemma IMU_set_fej_frame: "except_fej (snd (IMU_set_fej a v h)) = except_fej h"
  unfolding IMU_set_fej_def IMU_set_fej_internal_def
  by (auto intro!: seq_frame [where F = except_fej] Type_set_fej_frame PoseJPL_set_fej_frame
      simp: except_fej_store)

lemma except_value_eqD:
  assumes "except_value a = except_value b"
  shows "next_addr a = next_addr b" "m_id a = m_id b" "m_size a = m_size b" "m_fej a = m_fej b"
    "m_q a = m_q b" "m_p a = m_p b" "m_pose a = m_pose b" "m_v a = m_v b" "m_bg a = m_bg b"
    "m_ba a = m_ba b" "m_keyframe_pose a = m_keyframe_pose b"
  using assms by (cases a, cases b, simp add: except_value_def)+

lemma except_fej_eqD:
  assumes "except_fej a = except_fej b"
  shows "next_addr a = next_addr b" "m_id a = m_id b" "m_size a = m_size b" "m_value a = m_value b"
    "m_q a = m_q b" "m_p a = m_p b" "m_pose a = m_pose b" "m_v a = m_v b" "m_bg a = m_bg b"
    "m_ba a = m_ba b" "m_keyframe_pose a = m_keyframe_pose b"
  using assms by (cases a, cases b, simp add: except_fej_def)+

lemmas IMU_set_value_same = except_value_eqD [OF IMU_set_value_frame]

lemmas IMU_update_same = except_value_eqD [OF IMU_update_frame]

lemmas IMU_set_fej_same = except_fej_eqD [OF IMU_set_fej_frame]

lemma IMU_wf_quat_shape:
  assumes "IMU_wf h this"
  shows "\<exists>c. m_value h (m_q h (m_pose h this)) = [c] \<and> length c = 4"
    "\<exists>c. m_value h (m_q h (m_keyframe_pose h this)) = [c] \<and> length c = 4"
  using assms shape_col [of 4 "m_value h (m_q h (m_pose h this))"]
    shape_col [of 4 "m_value h (m_q h (m_keyframe_pose h this))"]
  by (simp_all add: IMU_wf_def IMU_objects_def shape_def)

lemma length_IMU_update_value:
  assumes "IMU_wf h this" "length dx = 21"
  shows "length (IMU_update_value qn qm this dx h) = 23"
proof -
  obtain c where c: "m_value h this = [c]" "length c = 23"
    using IMU_wf_value [OF assms(1)] by blast
  show ?thesis
    using c assms(2)
    by (simp add: IMU_update_value_def Let_def as_vector_def length_vadd length_list_of_vec4
        vblock_def)
qed

lemma vec4_of_list_of_vec4: "vec4_of (list_of_vec4 q) = q"
  by (cases q) (simp add: vec4_of_def list_of_vec4_def)

lemma IMU_update_fail:
  assumes "IMU_wf h this" "length dx \<noteq> 21"
  shows "IMU_update qn qm this dx h = (Inl AssertionFailed, h)"
  using assms(2) IMU_wf_size [OF assms(1)] by (simp add: IMU_update_def)

lemma IMU_update_blocks:
  assumes "IMU_wf h this" "length dx = 21"
  shows "vblock 0 4 (IMU_update_value qn qm this dx h) =
      list_of_vec4 (qm (qn (0.5 * dx ! 0, 0.5 * dx ! 1, 0.5 * dx ! 2, 1)) (IMU_quat this h))"
    "vblock 4 3 (IMU_update_value qn qm this dx h) =
      vadd (vblock 4 3 (as_vector (m_value h this))) (vblock 3 3 dx)"
    "vblock 7 3 (IMU_update_value qn qm this dx h) =
      vadd (vblock 7 3 (as_vector (m_value h this))) (vblock 6 3 dx)"
    "vblock 10 3 (IMU_update_value qn qm this dx h) =
      vadd (vblock 10 3 (as_vector (m_value h this))) (vblock 9 3 dx)"
    "vblock 13 3 (IMU_update_value qn qm this dx h) =
      vadd (vblock 13 3 (as_vector (m_value h this))) (vblock 12 3 dx)"
    "vblock 16 4 (IMU_update_value qn qm this dx h) =
      list_of_vec4 (qm (qn (0.5 * dx ! 15, 0.5 * dx ! 16, 0.5 * dx ! 17, 1))
        (IMU_keyframe_quat this h))"
    "vblock 20 3 (IMU_update_value qn qm this dx h) =
      vadd (vblock 20 3 (as_vector (m_value h this))) (vblock 18 3 dx)"
proof -
  obtain c where c: "m_value h this = [c]" "length c = 23"
    using IMU_wf_value [OF assms(1)] by blast
  define q where "q = list_of_vec4 (qm (qn (0.5 * dx ! 0, 0.5 * dx ! 1, 0.5 * dx ! 2, 1)) (IMU_quat this h))"
  define k where "k = list_of_vec4 (qm (qn (0.5 * dx ! 15, 0.5 * dx ! 16, 0.5 * dx ! 17, 1))
        (IMU_keyframe_quat this h))"
  define a1 where "a1 = vadd (vblock 4 3 c) (vblock 3 3 dx)"
  define a2 where "a2 = vadd (vblock 7 3 c) (vblock 6 3 dx)"
  define a3 where "a3 = vadd (vblock 10 3 c) (vblock 9 3 dx)"
  define a4 where "a4 = vadd (vblock 13 3 c) (vblock 12 3 dx)"
  define a5 where "a5 = vadd (vblock 20 3 c) (vblock 18 3 dx)"
  have l: "length q = 4" "length k = 4"
    by (simp_all add: q_def k_def length_list_of_vec4)
  have la: "length a1 = 3" "length a2 = 3" "length a3 = 3" "length a4 = 3" "length a5 = 3"
    using c(2) assms(2) by (simp_all add: a1_def a2_def a3_def a4_def a5_def length_vadd vblock_def)
  have X: "IMU_update_value qn qm this dx h = q @ a1 @ a2 @ a3 @ a4 @ k @ a5"
    using c(1) by (simp add: IMU_update_value_def Let_def as_vector_def q_def k_def a1_def a2_def
        a3_def a4_def a5_def)
  have av: "as_vector (m_value h this) = c"
    using c(1) by (simp add: as_vector_def)
  show "vblock 0 4 (IMU_update_value qn qm this dx h) =
      list_of_vec4 (qm (qn (0.5 * dx ! 0, 0.5 * dx ! 1, 0.5 * dx ! 2, 1)) (IMU_quat this h))"
    unfolding X q_def [symmetric] using l by (simp add: vblock_def)
  show "vblock 4 3 (IMU_update_value qn qm this dx h) =
      vadd (vblock 4 3 (as_vector (m_value h this))) (vblock 3 3 dx)"
    unfolding X av a1_def [symmetric] using l la by (simp add: vblock_def)
  show "vblock 7 3 (IMU_update_value qn qm this dx h) =
      vadd (vblock 7 3 (as_vector (m_value h this))) (vblock 6 3 dx)"
    unfolding X av a2_def [symmetric] using l la by (simp add: vblock_def)
  show "vblock 10 3 (IMU_update_value qn qm this dx h) =
      vadd (vblock 10 3 (as_vector (m_value h this))) (vblock 9 3 dx)"
    unfolding X av a3_def [symmetric] using l la by (simp add: vblock_def)
  show "vblock 13 3 (IMU_update_value qn qm this dx h) =
      vadd (vblock 13 3 (as_vector (m_value h this))) (vblock 12 3 dx)"
    unfolding X av a4_def [symmetric] using l la by (simp add: vblock_def)
  show "vblock 16 4 (IMU_update_value qn qm this dx h) =
      list_of_vec4 (qm (qn (0.5 * dx ! 15, 0.5 * dx ! 16, 0.5 * dx ! 17, 1))
        (IMU_keyframe_quat this h))"
    unfolding X k_def [symmetric] using l la by (simp add: vblock_def)
  show "vblock 20 3 (IMU_update_value qn qm this dx h) =
      vadd (vblock 20 3 (as_vector (m_value h this))) (vblock 18 3 dx)"
    unfolding X av a5_def [symmetric] using l la by (simp add: vblock_def)
qed

lemma IMU_update_ok:
  assumes "IMU_wf h this" "length dx = 21"
  shows "fst (IMU_update qn qm this dx h) = Inr ()"
    "m_value (snd (IMU_update qn qm this dx h)) this = [IMU_update_value qn qm this dx h]"
    "m_value (snd (IMU_update qn qm this dx h)) (m_q h (m_pose h this)) =
       [vblock 0 4 (IMU_update_value qn qm this dx h)]"
    "m_value (snd (IMU_update qn qm this dx h)) (m_q h (m_keyframe_pose h this)) =
       [vblock 16 4 (IMU_update_value qn qm this dx h)]"
proof -
  have s: "shape 23 1 (as_matrix (IMU_update_value qn qm this dx h))"
    using length_IMU_update_value [OF assms] by (simp add: shape_as_matrix)
  note f = IMU_set_value_fields [OF assms(1) s]
  show "fst (IMU_update qn qm this dx h) = Inr ()"
    unfolding IMU_update_eq [OF assms] using f(1) .
  show "m_value (snd (IMU_update qn qm this dx h)) this = [IMU_update_value qn qm this dx h]"
    unfolding IMU_update_eq [OF assms] using f(2) by (simp add: as_matrix_def)
  show "m_value (snd (IMU_update qn qm this dx h)) (m_q h (m_pose h this)) =
       [vblock 0 4 (IMU_update_value qn qm this dx h)]"
    unfolding IMU_update_eq [OF assms] f(4)
    using length_IMU_update_value [OF assms, of qn qm]
    by (simp add: as_matrix_def block_def vblock_def)
  show "m_value (snd (IMU_update qn qm this dx h)) (m_q h (m_keyframe_pose h this)) =
       [vblock 16 4 (IMU_update_value qn qm this dx h)]"
    unfolding IMU_update_eq [OF assms] f(10)
    using length_IMU_update_value [OF assms, of qn qm]
    by (simp add: as_matrix_def block_def vblock_def)
qed

lemma heap1_values:
  "m_value heap1 0 = [imu0]" "m_value heap1 2 = [quat0]" "m_value heap1 8 = [quat0]"
  "m_fej heap1 0 = [imu0]"
  by (simp_all add: heap1_def IMU_new_eq empty_heap_def)

lemma quatnorm_identity: "quatnorm (0, 0, 0, 1) = (0, 0, 0, 1)"
  by (simp add: quatnorm_def)

lemma quat_multiply_identity: "quat_multiply (0, 0, 0, 1) (0, 0, 0, 1) = (0, 0, 0, 1)"
  by (simp add: quat_multiply_def quatnorm_def)

lemma heap1_quat:
  "IMU_quat 0 heap1 = (0, 0, 0, 1)" "IMU_keyframe_quat 0 heap1 = (0, 0, 0, 1)"
  by (simp_all add: IMU_quat_def IMU_keyframe_quat_def PoseJPL_quat_def heap1_ptrs heap1_values
      as_vector_def vec4_of_def quat0_def)

lemma length_delta1: "length delta1 = 21"
  by (simp add: delta1_def)

lemma first_identical_mem:
  "first_identical check xs = (if check \<in> Some ` set xs then check else None)"
  by (induction xs) auto

lemma IMU_check_if_subvariable_first:
  "IMU_check_if_subvariable this check h = first_identical check (tl (IMU_objects h this))"
  by (cases check) (simp_all add: IMU_check_if_subvariable_def PoseJPL_check_if_subvariable_def
      IMU_objects_def)

lemma IMU_check_if_subvariable_chain:
  "IMU_check_if_subvariable this check h =
     (if check = Some (m_pose h this) then Some (m_pose h this)
      else if check = Some (m_q h (m_pose h this)) then Some (m_q h (m_pose h this))
      else if check = Some (m_p h (m_pose h this)) then Some (m_p h (m_pose h this))
      else if check = Some (m_v h this) then Some (m_v h this)
      else if check = Some (m_bg h this) then Some (m_bg h this)
      else if check = Some (m_ba h this) then Some (m_ba h this)
      else if check = Some (m_keyframe_pose h this) then Some (m_keyframe_pose h this)
      else if check = Some (m_q h (m_keyframe_pose h this))
        then Some (m_q h (m_keyframe_pose h this))
      else if check = Some (m_p h (m_keyframe_pose h this))
        then Some (m_p h (m_keyframe_pose h this))
      else None)"
  by (cases check) (simp_all add: IMU_check_if_subvariable_def PoseJPL_check_if_subvariable_def)

lemma empty_heap_next: "next_addr empty_heap = 0"
  by (simp add: empty_heap_def)

lemma IMU_new_fst: "fst (IMU_new h) = Inr (next_addr h)"
  by (simp add: IMU_new_eq)

lemma IMU_new_ptrs:
  "m_pose (snd (IMU_new h)) (next_addr h) = Suc (next_addr h)"
  "m_q (snd (IMU_new h)) (Suc (next_addr h)) = Suc (Suc (next_addr h))"
  "m_p (snd (IMU_new h)) (Suc (next_addr h)) = next_addr h + 3"
  "m_v (snd (IMU_new h)) (next_addr h) = next_addr h + 4"
  "m_bg (snd (IMU_new h)) (next_addr h) = next_addr h + 5"
  "m_ba (snd (IMU_new h)) (next_addr h) = next_addr h + 6"
  "m_keyframe_pose (snd (IMU_new h)) (next_addr h) = next_addr h + 7"
  "m_q (snd (IMU_new h)) (next_addr h + 7) = next_addr h + 8"
  "m_p (snd (IMU_new h)) (next_addr h + 7) = next_addr h + 9"
  by (simp_all add: IMU_new_eq)

lemma IMU_new_values:
  "m_value (snd (IMU_new h)) (next_addr h) = [imu0]"
  "m_value (snd (IMU_new h)) (Suc (next_addr h)) = [pose0]"
  "m_value (snd (IMU_new h)) (Suc (Suc (next_addr h))) = [quat0]"
  "m_value (snd (IMU_new h)) (next_addr h + 3) = [[0, 0, 0]]"
  "m_value (snd (IMU_new h)) (next_addr h + 4) = [[0, 0, 0]]"
  "m_value (snd (IMU_new h)) (next_addr h + 5) = [[0, 0, 0]]"
  "m_value (snd (IMU_new h)) (next_addr h + 6) = [[0, 0, 0]]"
  "m_value (snd (IMU_new h)) (next_addr h + 7) = [pose0]"
  "m_value (snd (IMU_new h)) (next_addr h + 8) = [quat0]"
  "m_value (snd (IMU_new h)) (next_addr h + 9) = [[0, 0, 0]]"
  by (simp_all add: IMU_new_eq)

lemma IMU_new_quat:
  "IMU_quat (next_addr h) (snd (IMU_new h)) = (0, 0, 0, 1)"
  "IMU_keyframe_quat (next_addr h) (snd (IMU_new h)) = (0, 0, 0, 1)"
  by (simp_all add: IMU_quat_def IMU_keyframe_quat_def PoseJPL_quat_def IMU_new_ptrs
      IMU_new_values as_vector_def vec4_of_def quat0_def)

lemma IMU_update_value_zero:
  assumes "qn (0, 0, 0, 1) = (0, 0, 0, 1)" "qm (0, 0, 0, 1) (0, 0, 0, 1) = (0, 0, 0, 1)"
  shows "IMU_update_value qn qm (next_addr h) (replicate 21 0) (snd (IMU_new h)) = imu0"
  using assms
  by (simp add: IMU_update_value_def IMU_new_quat IMU_new_values Let_def
      as_vector_def imu0_eq vblock_def vadd_def list_of_vec4_def numeral_eq_Suc)

lemma IMU_set_value_default:
  "IMU_set_value (next_addr h) (as_matrix imu0) (snd (IMU_new h)) = (Inr (), snd (IMU_new h))"
proof -
  have s: "shape 23 1 (as_matrix imu0)"
    by (simp add: shape_as_matrix imu0_eq)
  have "(m_value (snd (IMU_new h)))
       (m_q (snd (IMU_new h)) (m_pose (snd (IMU_new h)) (next_addr h)) :=
          block 0 0 4 1 (block 0 0 7 1 (as_matrix imu0)),
        m_p (snd (IMU_new h)) (m_pose (snd (IMU_new h)) (next_addr h)) :=
          block 4 0 3 1 (block 0 0 7 1 (as_matrix imu0)),
        m_pose (snd (IMU_new h)) (next_addr h) := block 0 0 7 1 (as_matrix imu0),
        m_v (snd (IMU_new h)) (next_addr h) := block 7 0 3 1 (as_matrix imu0),
        m_bg (snd (IMU_new h)) (next_addr h) := block 10 0 3 1 (as_matrix imu0),
        m_ba (snd (IMU_new h)) (next_addr h) := block 13 0 3 1 (as_matrix imu0),
        m_q (snd (IMU_new h)) (m_keyframe_pose (snd (IMU_new h)) (next_addr h)) :=
          block 0 0 4 1 (block 16 0 7 1 (as_matrix imu0)),
        m_p (snd (IMU_new h)) (m_keyframe_pose (snd (IMU_new h)) (next_addr h)) :=
          block 4 0 3 1 (block 16 0 7 1 (as_matrix imu0)),
        m_keyframe_pose (snd (IMU_new h)) (next_addr h) := block 16 0 7 1 (as_matrix imu0),
        next_addr h := as_matrix imu0) = m_value (snd (IMU_new h))"
    by (rule ext) (simp add: IMU_new_eq as_matrix_def block_def imu0_eq pose0_def quat0_def)
  then show ?thesis
    unfolding IMU_set_value_def IMU_set_value_internal_ok [OF IMU_new_wf s]
    by simp
qed

lemma IMU_wf_lt:
  assumes "IMU_wf h this"
  shows "this < next_addr h" "m_pose h this < next_addr h"
    "m_q h (m_pose h this) < next_addr h" "m_p h (m_pose h this) < next_addr h"
    "m_v h this < next_addr h" "m_bg h this < next_addr h" "m_ba h this < next_addr h"
    "m_keyframe_pose h this < next_addr h"
    "m_q h (m_keyframe_pose h this) < next_addr h" "m_p h (m_keyframe_pose h this) < next_addr h"
  using assms by (simp_all add: IMU_wf_def IMU_objects_def)

lemma IMU_wf_keyframe_shapes:
  assumes "IMU_wf h this"
  shows "rows (m_value h (m_p h (m_keyframe_pose h this))) = 3"
    "cols (m_value h (m_p h (m_keyframe_pose h this))) = 1"
    "rows (m_fej h (m_p h (m_keyframe_pose h this))) = 3"
    "cols (m_fej h (m_p h (m_keyframe_pose h this))) = 1"
  using assms by (simp_all add: IMU_wf_def IMU_objects_def)

lemma IMU_reset_keyframe_states_eq:
  assumes "IMU_wf h this"
  shows "IMU_reset_keyframe_states this h = (Inr (),
    h\<lparr>next_addr := next_addr h + 3,
      m_id := (m_id h)(next_addr h := - 1, next_addr h + 1 := - 1, next_addr h + 2 := - 1),
      m_size := (m_size h)(next_addr h := 6, next_addr h + 1 := 3, next_addr h + 2 := 3),
      m_value := (m_value h)(next_addr h + 1 := [[0, 0, 0, 1]], next_addr h + 2 := [[0, 0, 0]],
         next_addr h := [pose0],
         m_q h (m_keyframe_pose h this) := [[0, 0, 0, 1]],
         m_p h (m_keyframe_pose h this) := [[0, 0, 0]],
         m_keyframe_pose h this := [pose0],
         this := set_block 16 0 7 1 [pose0] (m_value h this)),
      m_fej := (m_fej h)(next_addr h + 1 := [[0, 0, 0, 1]], next_addr h + 2 := [[0, 0, 0]],
         next_addr h := [pose0],
         m_q h (m_keyframe_pose h this) := [[0, 0, 0, 1]],
         m_p h (m_keyframe_pose h this) := [[0, 0, 0]],
         m_keyframe_pose h this := [pose0],
         this := set_block 16 0 7 1 [pose0] (m_fej h this)),
      m_q := (m_q h)(next_addr h := next_addr h + 1),
      m_p := (m_p h)(next_addr h := next_addr h + 2)\<rparr>)"
  using IMU_wf_lt [OF assms] IMU_wf_neq [OF assms] IMU_wf_keyframe_shapes [OF assms]
  apply (simp add: IMU_reset_keyframe_states_def bind_res_def PoseJPL_new_eq seq_def
      PoseJPL_set_value_def PoseJPL_set_fej_def JPLQuat_set_value_def JPLQuat_set_fej_def
      Type_set_value_def Type_set_fej_def)
  apply (simp add: rows_def cols_def block_def pose0_def)
  done

lemma block_set_block_before:
  assumes "i + n \<le> j" "j + p \<le> length c"
  shows "block i 0 n (Suc 0) (set_block j 0 p (Suc 0) [b] [c]) = block i 0 n (Suc 0) [c]"
  using vblock_vset_block_before [OF assms, of b]
  by (simp add: block_def set_block_def vblock_def)

lemma block_set_block_same:
  assumes "j + p \<le> length c" "length b = p"
  shows "block j 0 p (Suc 0) (set_block j 0 p (Suc 0) [b] [c]) = [b]"
  using vblock_vset_block_same [OF assms]
  by (simp add: block_def set_block_def vblock_def)

lemma shape_set_block:
  assumes "j + p \<le> length c" "length b = p"
  shows "shape (length c) (Suc 0) (set_block j 0 p (Suc 0) [b] [c])"
  using length_vset_block [of j p c b] assms
  by (simp add: shape_col set_block_def)

lemma heap2_wf: "IMU_wf heap2 0"
  unfolding heap2_def by (intro IMU_wf_set_fej IMU_wf_set_value heap1_wf)

lemma heap2_values: "m_value heap2 0 = value2" "m_fej heap2 0 = value2"
  unfolding heap2_def
  using IMU_set_value_fields(2) [OF heap1_wf shape_value2]
    IMU_set_fej_fields(2) [OF IMU_wf_set_value [OF heap1_wf] shape_value2, of value2]
  by (simp_all add: IMU_set_fej_same)

lemma IMU_objects_set_value:
  "IMU_objects (snd (IMU_set_value this v h)) a = IMU_objects h a"
  by (simp add: IMU_objects_def IMU_set_value_same)

lemma IMU_objects_set_fej:
  "IMU_objects (snd (IMU_set_fej this v h)) a = IMU_objects h a"
  by (simp add: IMU_objects_def IMU_set_fej_same)

lemma IMU_consistent_set_value:
  assumes "IMU_wf h this" "IMU_consistent h this"
  shows "IMU_consistent (snd (IMU_set_value this v h)) this"
proof (cases "shape 23 1 v")
  case True
  show ?thesis
    using assms(2)
    by (simp add: IMU_consistent_def IMU_set_value_same IMU_set_value_fields [OF assms(1) True])
next
  case False
  then show ?thesis
    using assms(2) by (simp add: IMU_set_value_def IMU_set_value_internal_fail)
qed

lemma IMU_consistent_set_fej:
  assumes "IMU_wf h this" "IMU_consistent h this"
  shows "IMU_consistent (snd (IMU_set_fej this v h)) this"
proof (cases "shape 23 1 v")
  case True
  show ?thesis
    using assms(2)
    by (simp add: IMU_consistent_def IMU_set_fej_same IMU_set_fej_fields [OF assms(1) True])
next
  case False
  then show ?thesis
    using assms(2) by (simp add: IMU_set_fej_def IMU_set_fej_internal_fail)
qed

lemma IMU_wf_update:
  assumes "IMU_wf h this"
  shows "IMU_wf (snd (IMU_update qn qm this dx h)) this"
proof (cases "length dx = 21")
  case True
  show ?thesis
    unfolding IMU_update_eq [OF assms True] by (rule IMU_wf_set_value [OF assms])
next
  case False
  then show ?thesis
    using assms by (simp add: IMU_update_fail)
qed

lemma IMU_consistent_update:
  assumes "IMU_wf h this" "IMU_consistent h this"
  shows "IMU_consistent (snd (IMU_update qn qm this dx h)) this"
proof (cases "length dx = 21")
  case True
  show ?thesis
    unfolding IMU_update_eq [OF assms(1) True] by (rule IMU_consistent_set_value [OF assms])
next
  case False
  then show ?thesis
    using assms by (simp add: IMU_update_fail)
qed

lemma IMU_wf_reset_keyframe_states:
  assumes "IMU_wf h this"
  shows "IMU_wf (snd (IMU_reset_keyframe_states this h)) this"
proof -
  obtain c where c: "m_value h this = [c]" "length c = 23"
    using IMU_wf_value [OF assms] by blast
  obtain d where d: "m_fej h this = [d]" "length d = 23"
    using IMU_wf_fej [OF assms] by blast
  have p: "length pose0 = 7"
    by (simp add: pose0_def)
  have s: "shape 23 (Suc 0) (set_block 16 0 7 (Suc 0) [pose0] [c])"
    "shape 23 (Suc 0) (set_block 16 0 7 (Suc 0) [pose0] [d])"
    using shape_set_block [of 16 7 c pose0] shape_set_block [of 16 7 d pose0] c(2) d(2) p
    by simp_all
  show ?thesis
    unfolding IMU_reset_keyframe_states_eq [OF assms]
    using assms IMU_wf_lt [OF assms] IMU_wf_neq [OF assms] c d s
    by (simp add: IMU_wf_def IMU_objects_def shape_def) (simp add: rows_def cols_def pose0_def)
qed

lemma IMU_consistent_reset_keyframe_states:
  assumes "IMU_wf h this" "IMU_consistent h this"
  shows "IMU_consistent (snd (IMU_reset_keyframe_states this h)) this"
proof -
  obtain c where c: "m_value h this = [c]" "length c = 23"
    using IMU_wf_value [OF assms(1)] by blast
  obtain d where d: "m_fej h this = [d]" "length d = 23"
    using IMU_wf_fej [OF assms(1)] by blast
  have p: "length pose0 = 7"
    by (simp add: pose0_def)
  note bb = block_set_block_before [of _ _ 16 7 _ pose0]
  show ?thesis
    unfolding IMU_reset_keyframe_states_eq [OF assms(1)]
    using assms(2) IMU_wf_lt [OF assms(1)] IMU_wf_neq [OF assms(1)] c d
      block_set_block_same [of 16 7 c pose0] block_set_block_same [of 16 7 d pose0] p
    by (simp add: IMU_consistent_def bb)
qed

lemma unchanged_below_refl: "unchanged_below n h h"
  by (simp add: unchanged_below_def)

lemma unchanged_below_trans:
  "unchanged_below n h h' \<Longrightarrow> unchanged_below n h' h'' \<Longrightarrow> unchanged_below n h h''"
  by (simp add: unchanged_below_def)

lemma unchanged_below_new: "unchanged_below (next_addr h) h (snd (IMU_new h))"
  by (simp add: unchanged_below_def IMU_new_eq)

lemma IMU_new_objects:
  "IMU_objects (snd (IMU_new h)) (next_addr h) =
     [next_addr h, next_addr h + 1, next_addr h + 2, next_addr h + 3, next_addr h + 4,
      next_addr h + 5, next_addr h + 6, next_addr h + 7, next_addr h + 8, next_addr h + 9]"
  by (simp add: IMU_objects_def IMU_new_eq)

lemma IMU_new_next: "next_addr (snd (IMU_new h)) = next_addr h + 10"
  by (simp add: IMU_new_eq)

lemma IMU_new_id: "m_id (snd (IMU_new h)) (next_addr h) = - 1"
  by (simp add: IMU_new_eq)

lemma IMU_wf_ge:
  assumes "list_all (\<lambda>x. n \<le> x) (IMU_objects h c)"
  shows "n \<le> c" "n \<le> m_pose h c" "n \<le> m_q h (m_pose h c)" "n \<le> m_p h (m_pose h c)"
    "n \<le> m_v h c" "n \<le> m_bg h c" "n \<le> m_ba h c" "n \<le> m_keyframe_pose h c"
    "n \<le> m_q h (m_keyframe_pose h c)" "n \<le> m_p h (m_keyframe_pose h c)"
  using assms by (simp_all add: IMU_objects_def)

lemma unchanged_below_set_value:
  assumes "IMU_wf h c" "list_all (\<lambda>x. n \<le> x) (IMU_objects h c)"
  shows "unchanged_below n h (snd (IMU_set_value c v h))"
proof (cases "shape 23 1 v")
  case True
  show ?thesis
    unfolding IMU_set_value_def IMU_set_value_internal_ok [OF assms(1) True]
    using IMU_wf_ge [OF assms(2)] by (auto simp: unchanged_below_def)
next
  case False
  then show ?thesis
    by (simp add: IMU_set_value_def IMU_set_value_internal_fail unchanged_below_refl)
qed

lemma unchanged_below_set_fej:
  assumes "IMU_wf h c" "list_all (\<lambda>x. n \<le> x) (IMU_objects h c)"
  shows "unchanged_below n h (snd (IMU_set_fej c v h))"
proof (cases "shape 23 1 v")
  case True
  show ?thesis
    unfolding IMU_set_fej_def IMU_set_fej_internal_ok [OF assms(1) True]
    using IMU_wf_ge [OF assms(2)] by (auto simp: unchanged_below_def)
next
  case False
  then show ?thesis
    by (simp add: IMU_set_fej_def IMU_set_fej_internal_fail unchanged_below_refl)
qed

lemma unchanged_below_update:
  assumes "IMU_wf h c" "list_all (\<lambda>x. n \<le> x) (IMU_objects h c)"
  shows "unchanged_below n h (snd (IMU_update qn qm c dx h))"
proof (cases "length dx = 21")
  case True
  show ?thesis
    unfolding IMU_update_eq [OF assms(1) True] by (rule unchanged_below_set_value [OF assms])
next
  case False
  then show ?thesis
    using assms(1) by (simp add: IMU_update_fail unchanged_below_refl)
qed

lemma IMU_wf_unchanged_below:
  assumes "IMU_wf h this" "unchanged_below (next_addr h) h h'" "next_addr h \<le> next_addr h'"
  shows "IMU_wf h' this"
proof -
  note lt = IMU_wf_lt [OF assms(1)]
  have u: "\<And>x. x < next_addr h \<Longrightarrow> m_size h' x = m_size h x \<and>
        m_value h' x = m_value h x \<and> m_fej h' x = m_fej h x \<and>
        m_q h' x = m_q h x \<and> m_p h' x = m_p h x \<and> m_pose h' x = m_pose h x \<and>
        m_v h' x = m_v h x \<and> m_bg h' x = m_bg h x \<and> m_ba h' x = m_ba h x \<and>
        m_keyframe_pose h' x = m_keyframe_pose h x"
    using assms(2) by (simp add: unchanged_below_def)
  have o: "IMU_objects h' this = IMU_objects h this"
    using lt u [of this] u [of "m_pose h this"] u [of "m_keyframe_pose h this"]
    by (simp add: IMU_objects_def)
  have l: "list_all (\<lambda>x. x < next_addr h) (IMU_objects h this)"
    using assms(1) by (simp add: IMU_wf_def)
  then have l': "list_all (\<lambda>x. x < next_addr h') (IMU_objects h this)"
    using assms(3) by (auto simp: list_all_iff)
  have m: "map (m_size h') (IMU_objects h this) = map (m_size h) (IMU_objects h this)"
    "map (\<lambda>x. (rows (m_value h' x), cols (m_value h' x))) (IMU_objects h this) =
     map (\<lambda>x. (rows (m_value h x), cols (m_value h x))) (IMU_objects h this)"
    "map (\<lambda>x. (rows (m_fej h' x), cols (m_fej h' x))) (IMU_objects h this) =
     map (\<lambda>x. (rows (m_fej h x), cols (m_fej h x))) (IMU_objects h this)"
    using l u by (auto simp: list_all_iff)
  show ?thesis
    using assms(1) unfolding IMU_wf_def o m using l' by simp
qed

lemma IMU_clone_eq:
  assumes "IMU_wf h this"
  shows "IMU_clone this h = (Inr (next_addr h),
     snd (IMU_set_fej (next_addr h) (m_fej h this)
       (snd (IMU_set_value (next_addr h) (m_value h this) (snd (IMU_new h))))))"
proof -
  define c where "c = next_addr h"
  define h1 where "h1 = snd (IMU_new h)"
  define h2 where "h2 = snd (IMU_set_value c (m_value h this) h1)"
  define h3 where "h3 = snd (IMU_set_fej c (m_fej h this) h2)"
  note lt = IMU_wf_lt [OF assms]
  have n: "IMU_new h = (Inr c, h1)"
    by (simp add: prod_eq_iff IMU_new_fst c_def h1_def)
  have wf1: "IMU_wf h1 c"
    unfolding h1_def c_def by (rule IMU_new_wf)
  have v1: "m_value h1 this = m_value h this" "m_fej h1 this = m_fej h this"
    using unchanged_below_new [of h] lt(1) by (simp_all add: unchanged_below_def h1_def)
  have sv: "shape 23 1 (m_value h this)" "shape 23 1 (m_fej h this)"
    using assms by (simp_all add: IMU_wf_def IMU_objects_def shape_def)
  have s2: "IMU_set_value c (m_value h this) h1 = (Inr (), h2)"
    using IMU_set_value_fields(1) [OF wf1 sv(1)] by (simp add: prod_eq_iff h2_def)
  have wf2: "IMU_wf h2 c"
    unfolding h2_def by (rule IMU_wf_set_value [OF wf1])
  have v2: "m_value h2 this = m_value h this" "m_fej h2 this = m_fej h this"
    using unchanged_below_set_value [of h1 c c "m_value h this"] wf1 lt(1) v1
    by (simp_all add: h2_def IMU_set_value_same c_def h1_def IMU_new_objects
        unchanged_below_def)
  have s3: "IMU_set_fej c (m_fej h this) h2 = (Inr (), h3)"
    using IMU_set_fej_fields(1) [OF wf2 sv(2)] by (simp add: prod_eq_iff h3_def)
  show ?thesis
    unfolding IMU_clone_def bind_res_def seq_def n
    by (simp add: v1 s2 v2 s3) (simp add: h3_def h2_def h1_def c_def)
qed

lemma IMU_clone_facts:
  assumes "IMU_wf h this"
  shows "fst (IMU_clone this h) = Inr (next_addr h)"
    "IMU_wf (snd (IMU_clone this h)) (next_addr h)"
    "IMU_objects (snd (IMU_clone this h)) (next_addr h) =
       [next_addr h, next_addr h + 1, next_addr h + 2, next_addr h + 3, next_addr h + 4,
        next_addr h + 5, next_addr h + 6, next_addr h + 7, next_addr h + 8, next_addr h + 9]"
    "m_value (snd (IMU_clone this h)) (next_addr h) = m_value h this"
    "m_fej (snd (IMU_clone this h)) (next_addr h) = m_fej h this"
    "m_id (snd (IMU_clone this h)) (next_addr h) = - 1"
    "unchanged_below (next_addr h) h (snd (IMU_clone this h))"
    "next_addr (snd (IMU_clone this h)) = next_addr h + 10"
proof -
  define c where "c = next_addr h"
  define h1 where "h1 = snd (IMU_new h)"
  define h2 where "h2 = snd (IMU_set_value c (m_value h this) h1)"
  define h3 where "h3 = snd (IMU_set_fej c (m_fej h this) h2)"
  have e: "IMU_clone this h = (Inr c, h3)"
    unfolding IMU_clone_eq [OF assms] c_def h1_def h2_def h3_def ..
  have sv: "shape 23 1 (m_value h this)" "shape 23 1 (m_fej h this)"
    using assms by (simp_all add: IMU_wf_def IMU_objects_def shape_def)
  have wf1: "IMU_wf h1 c"
    unfolding h1_def c_def by (rule IMU_new_wf)
  have wf2: "IMU_wf h2 c"
    unfolding h2_def by (rule IMU_wf_set_value [OF wf1])
  have wf3: "IMU_wf h3 c"
    unfolding h3_def by (rule IMU_wf_set_fej [OF wf2])
  have o1: "IMU_objects h1 c = [c, c + 1, c + 2, c + 3, c + 4, c + 5, c + 6, c + 7, c + 8, c + 9]"
    unfolding h1_def c_def by (rule IMU_new_objects)
  have o2: "IMU_objects h2 c = IMU_objects h1 c"
    unfolding h2_def by (rule IMU_objects_set_value)
  have o3: "IMU_objects h3 c = IMU_objects h2 c"
    unfolding h3_def by (rule IMU_objects_set_fej)
  have g1: "list_all (\<lambda>x. c \<le> x) (IMU_objects h1 c)"
    unfolding o1 by simp
  have g2: "list_all (\<lambda>x. c \<le> x) (IMU_objects h2 c)"
    unfolding o2 by (rule g1)
  have u1: "unchanged_below c h h1"
    unfolding c_def h1_def by (rule unchanged_below_new)
  have u2: "unchanged_below c h1 h2"
    unfolding h2_def by (rule unchanged_below_set_value [OF wf1 g1])
  have u3: "unchanged_below c h2 h3"
    unfolding h3_def by (rule unchanged_below_set_fej [OF wf2 g2])
  show "fst (IMU_clone this h) = Inr (next_addr h)"
    unfolding e by (simp add: c_def)
  show "IMU_wf (snd (IMU_clone this h)) (next_addr h)"
    unfolding e using wf3 by (simp add: c_def)
  show "IMU_objects (snd (IMU_clone this h)) (next_addr h) =
       [next_addr h, next_addr h + 1, next_addr h + 2, next_addr h + 3, next_addr h + 4,
        next_addr h + 5, next_addr h + 6, next_addr h + 7, next_addr h + 8, next_addr h + 9]"
    unfolding e c_def [symmetric] using o3 o2 o1 by simp
  show "m_value (snd (IMU_clone this h)) (next_addr h) = m_value h this"
    unfolding e c_def [symmetric]
    using IMU_set_value_fields(2) [OF wf1 sv(1)]
    by (simp add: h3_def IMU_set_fej_same h2_def)
  show "m_fej (snd (IMU_clone this h)) (next_addr h) = m_fej h this"
    unfolding e c_def [symmetric]
    using IMU_set_fej_fields(2) [OF wf2 sv(2)] by (simp add: h3_def)
  show "m_id (snd (IMU_clone this h)) (next_addr h) = - 1"
    unfolding e c_def [symmetric]
    by (simp add: h3_def IMU_set_fej_same h2_def IMU_set_value_same h1_def c_def IMU_new_id)
  show "unchanged_below (next_addr h) h (snd (IMU_clone this h))"
    unfolding e c_def [symmetric]
    using unchanged_below_trans [OF unchanged_below_trans [OF u1 u2] u3] by simp
  show "next_addr (snd (IMU_clone this h)) = next_addr h + 10"
    unfolding e
    by (simp add: h3_def IMU_set_fej_same h2_def IMU_set_value_same h1_def IMU_new_next)
qed

lemma IMU_wf_set_local_id: "IMU_wf h this \<Longrightarrow> IMU_wf (IMU_set_local_id a i h) this"
  by (simp add: IMU_wf_def IMU_objects_def IMU_set_local_id_frame)

lemma heap3_wf: "IMU_wf heap3 0"
  unfolding heap3_def by (rule IMU_wf_set_local_id [OF heap2_wf])

lemma heap3_facts:
  "next_addr heap3 = 10" "m_value heap3 0 = value2" "m_fej heap3 0 = value2" "m_id heap3 0 = 5"
proof -
  show "next_addr heap3 = 10"
    by (simp add: heap3_def IMU_set_local_id_frame heap2_def IMU_set_fej_same IMU_set_value_same
        heap1_def IMU_new_next empty_heap_next)
  show "m_value heap3 0 = value2" "m_fej heap3 0 = value2"
    by (simp_all add: heap3_def IMU_set_local_id_frame heap2_values)
  show "m_id heap3 0 = 5"
    unfolding heap3_def IMU_set_local_id_eq [OF heap2_wf]
    using IMU_wf_neq [OF heap2_wf] by simp
qed

lemma IMU_clone_keeps_fej:
  assumes "IMU_wf h this"
  shows "map (m_fej (snd (IMU_clone this h))) (IMU_objects h this) =
         map (m_fej h) (IMU_objects h this)"
  using IMU_clone_facts(7) [OF assms] IMU_wf_lt [OF assms]
  by (simp add: unchanged_below_def IMU_objects_def)

lemma IMU_reset_keyframe_states_keeps_fej:
  assumes "IMU_wf h this"
  shows "map (m_fej (snd (IMU_reset_keyframe_states this h)))
           [m_pose h this, m_q h (m_pose h this), m_p h (m_pose h this),
            m_v h this, m_bg h this, m_ba h this] =
         map (m_fej h)
           [m_pose h this, m_q h (m_pose h this), m_p h (m_pose h this),
            m_v h this, m_bg h this, m_ba h this]"
    "block 0 0 16 1 (m_fej (snd (IMU_reset_keyframe_states this h)) this) =
     block 0 0 16 1 (m_fej h this)"
proof -
  obtain d where d: "m_fej h this = [d]" "length d = 23"
    using IMU_wf_fej [OF assms] by blast
  show "map (m_fej (snd (IMU_reset_keyframe_states this h)))
           [m_pose h this, m_q h (m_pose h this), m_p h (m_pose h this),
            m_v h this, m_bg h this, m_ba h this] =
         map (m_fej h)
           [m_pose h this, m_q h (m_pose h this), m_p h (m_pose h this),
            m_v h this, m_bg h this, m_ba h this]"
    unfolding IMU_reset_keyframe_states_eq [OF assms]
    using IMU_wf_lt [OF assms] IMU_wf_neq [OF assms] by simp
  show "block 0 0 16 1 (m_fej (snd (IMU_reset_keyframe_states this h)) this) =
     block 0 0 16 1 (m_fej h this)"
    unfolding IMU_reset_keyframe_states_eq [OF assms]
    using d block_set_block_before [of 0 16 16 7 d pose0] by simp
qed

lemma nth_vblock: "k < p \<Longrightarrow> i + p \<le> length v \<Longrightarrow> vblock i p v ! k = v ! (i + k)"
  by (simp add: vblock_def)

lemma nth_vadd: "k < length a \<Longrightarrow> k < length b \<Longrightarrow> vadd a b ! k = a ! k + b ! k"
  by (simp add: vadd_def)

lemma nth_vblock_vadd:
  assumes "vblock i 3 x' = vadd (vblock i 3 x) (vblock j 3 dx)"
    "i + 3 \<le> length x'" "i + 3 \<le> length x" "j + 3 \<le> length dx" "k < 3"
  shows "x' ! (i + k) = x ! (i + k) + dx ! (j + k)"
proof -
  have "x' ! (i + k) = vblock i 3 x' ! k"
    using assms(2,5) by (simp add: nth_vblock)
  also have "\<dots> = vblock i 3 x ! k + vblock j 3 dx ! k"
    unfolding assms(1) using assms(3,4,5) by (simp add: nth_vadd length_vblock)
  also have "\<dots> = x ! (i + k) + dx ! (j + k)"
    using assms(3,4,5) by (simp add: nth_vblock)
  finally show ?thesis .
qed

lemma vblock4_tuple:
  assumes "vblock i 4 x' = list_of_vec4 q" "i + 4 \<le> length x'"
  shows "(x' ! i, x' ! (i + 1), x' ! (i + 2), x' ! (i + 3)) = q"
proof -
  have "vec4_of (vblock i 4 x') = (x' ! i, x' ! (i + 1), x' ! (i + 2), x' ! (i + 3))"
    using assms(2) nth_vblock [of 0 4 i x'] nth_vblock [of 1 4 i x'] nth_vblock [of 2 4 i x']
      nth_vblock [of 3 4 i x']
    by (simp add: vec4_of_def)
  then show ?thesis
    unfolding assms(1) by (simp add: vec4_of_list_of_vec4)
qed

lemma sqrt_25_16: "sqrt (25 / 16) = 5 / 4"
  using real_sqrt_abs [of "5 / 4"] by (simp add: power2_eq_square)

lemma quatnorm_x: "quatnorm (3 / 4, 0, 0, 1) = (3 / 5, 0, 0, 4 / 5)"
  by (simp add: quatnorm_def Let_def sqrt_25_16)

lemma quatnorm_z: "quatnorm (0, 0, 3 / 4, 1) = (0, 0, 3 / 5, 4 / 5)"
  by (simp add: quatnorm_def Let_def sqrt_25_16)

lemma quat_multiply_x:
  "quat_multiply (3 / 5, 0, 0, 4 / 5) (0, 0, 0, 1) = (3 / 5, 0, 0, 4 / 5)"
  by (simp add: quat_multiply_def quatnorm_def)

lemma quat_multiply_z:
  "quat_multiply (0, 0, 3 / 5, 4 / 5) (1 / 2, 1 / 2, 1 / 2, 1 / 2) = (7 / 10, 1 / 10, 7 / 10, 1 / 10)"
  by (simp add: quat_multiply_def quatnorm_def)

lemma heap2_ptrs:
  "m_pose heap2 0 = 1" "m_q heap2 (Suc 0) = 2" "m_keyframe_pose heap2 0 = 7" "m_q heap2 7 = 8"
  by (simp_all add: heap2_def IMU_set_fej_same IMU_set_value_same heap1_ptrs)

lemma heap2_quat_values:
  "m_value heap2 2 = [[0, 0, 0, 1]]" "m_value heap2 8 = [[1 / 2, 1 / 2, 1 / 2, 1 / 2]]"
proof -
  have v: "m_value heap2 = m_value (snd (IMU_set_value 0 value2 heap1))"
    by (simp add: heap2_def IMU_set_fej_same)
  show "m_value heap2 2 = [[0, 0, 0, 1]]"
    unfolding v using IMU_set_value_fields(4) [OF heap1_wf shape_value2]
    by (simp add: heap1_ptrs block_def value2_def)
  show "m_value heap2 8 = [[1 / 2, 1 / 2, 1 / 2, 1 / 2]]"
    unfolding v using IMU_set_value_fields(10) [OF heap1_wf shape_value2]
    by (simp add: heap1_ptrs block_def value2_def)
qed

lemma heap2_quat:
  "IMU_quat 0 heap2 = (0, 0, 0, 1)" "IMU_keyframe_quat 0 heap2 = (1 / 2, 1 / 2, 1 / 2, 1 / 2)"
  by (simp_all add: IMU_quat_def IMU_keyframe_quat_def PoseJPL_quat_def heap2_ptrs
      heap2_quat_values as_vector_def vec4_of_def)

lemma length_delta2: "length delta2 = 21"
  by (simp add: delta2_def)

lemma IMU_update_entries:
  assumes "IMU_wf h this" "length dx = 21"
    and "x = as_vector (m_value h this)"
    and "x' = IMU_update_value qn qm this dx h"
  shows "(x' ! 0, x' ! 1, x' ! 2, x' ! 3) =
      qm (qn (0.5 * dx ! 0, 0.5 * dx ! 1, 0.5 * dx ! 2, 1)) (IMU_quat this h)"
    "(x' ! 16, x' ! 17, x' ! 18, x' ! 19) =
      qm (qn (0.5 * dx ! 15, 0.5 * dx ! 16, 0.5 * dx ! 17, 1)) (IMU_keyframe_quat this h)"
    "k < 3 \<Longrightarrow> x' ! (4 + k) = x ! (4 + k) + dx ! (3 + k)"
    "k < 3 \<Longrightarrow> x' ! (7 + k) = x ! (7 + k) + dx ! (6 + k)"
    "k < 3 \<Longrightarrow> x' ! (10 + k) = x ! (10 + k) + dx ! (9 + k)"
    "k < 3 \<Longrightarrow> x' ! (13 + k) = x ! (13 + k) + dx ! (12 + k)"
    "k < 3 \<Longrightarrow> x' ! (20 + k) = x ! (20 + k) + dx ! (18 + k)"
proof -
  obtain c where c: "m_value h this = [c]" "length c = 23"
    using IMU_wf_value [OF assms(1)] by blast
  have lx: "length x = 23"
    using c by (simp add: assms(3) as_vector_def)
  have lx': "length x' = 23"
    unfolding assms(4) by (rule length_IMU_update_value [OF assms(1,2)])
  note b = IMU_update_blocks [OF assms(1,2), of qn qm, folded assms(3) assms(4)]
  show "(x' ! 0, x' ! 1, x' ! 2, x' ! 3) =
      qm (qn (0.5 * dx ! 0, 0.5 * dx ! 1, 0.5 * dx ! 2, 1)) (IMU_quat this h)"
    using vblock4_tuple [OF b(1)] lx' by (simp add: numeral_2_eq_2)
  show "(x' ! 16, x' ! 17, x' ! 18, x' ! 19) =
      qm (qn (0.5 * dx ! 15, 0.5 * dx ! 16, 0.5 * dx ! 17, 1)) (IMU_keyframe_quat this h)"
    using vblock4_tuple [OF b(6)] lx' by simp
  show "k < 3 \<Longrightarrow> x' ! (4 + k) = x ! (4 + k) + dx ! (3 + k)"
    using nth_vblock_vadd [OF b(2), of k] lx lx' assms(2) by simp
  show "k < 3 \<Longrightarrow> x' ! (7 + k) = x ! (7 + k) + dx ! (6 + k)"
    using nth_vblock_vadd [OF b(3), of k] lx lx' assms(2) by simp
  show "k < 3 \<Longrightarrow> x' ! (10 + k) = x ! (10 + k) + dx ! (9 + k)"
    using nth_vblock_vadd [OF b(4), of k] lx lx' assms(2) by simp
  show "k < 3 \<Longrightarrow> x' ! (13 + k) = x ! (13 + k) + dx ! (12 + k)"
    using nth_vblock_vadd [OF b(5), of k] lx lx' assms(2) by simp
  show "k < 3 \<Longrightarrow> x' ! (20 + k) = x ! (20 + k) + dx ! (18 + k)"
    using nth_vblock_vadd [OF b(7), of k] lx lx' assms(2) by simp
qed

section \<open>The claims\<close>

text \<open>C1. After \<^verbatim>\<open>set_local_id(i)\<close> the block and its pose have index \<open>i\<close>, and
  velocity, gyro bias, accel bias and keyframe pose each have the index of the child
  before them plus that child's error dimension when \<open>i \<noteq> -1\<close>, plus 0 when \<open>i = -1\<close>.
  With \<open>i = -1\<close> all five children have \<open>-1\<close>; with \<open>i = 5\<close> they have 5, 11, 14, 17, 20.\<close>

theorem IMU_set_local_id_offsets:
  assumes "IMU_wf h this"
  shows "(let h' = IMU_set_local_id this i h in
      m_id h' this = i \<and>
      m_id h' (m_pose h' this) = i \<and>
      m_id h' (m_v h' this) =
        m_id h' (m_pose h' this) + (if i \<noteq> - 1 then m_size h' (m_pose h' this) else 0) \<and>
      m_id h' (m_bg h' this) =
        m_id h' (m_v h' this) + (if i \<noteq> - 1 then m_size h' (m_v h' this) else 0) \<and>
      m_id h' (m_ba h' this) =
        m_id h' (m_bg h' this) + (if i \<noteq> - 1 then m_size h' (m_bg h' this) else 0) \<and>
      m_id h' (m_keyframe_pose h' this) =
        m_id h' (m_ba h' this) + (if i \<noteq> - 1 then m_size h' (m_ba h' this) else 0)) \<and>
    (let h' = IMU_set_local_id this (- 1) h in
      map (m_id h') [m_pose h' this, m_v h' this, m_bg h' this, m_ba h' this,
        m_keyframe_pose h' this] = [- 1, - 1, - 1, - 1, - 1]) \<and>
    (let h' = IMU_set_local_id this 5 h in
      map (m_id h') [m_pose h' this, m_v h' this, m_bg h' this, m_ba h' this,
        m_keyframe_pose h' this] = [5, 11, 14, 17, 20])"
proof (intro conjI)
  show "let h' = IMU_set_local_id this i h in
      m_id h' this = i \<and>
      m_id h' (m_pose h' this) = i \<and>
      m_id h' (m_v h' this) =
        m_id h' (m_pose h' this) + (if i \<noteq> - 1 then m_size h' (m_pose h' this) else 0) \<and>
      m_id h' (m_bg h' this) =
        m_id h' (m_v h' this) + (if i \<noteq> - 1 then m_size h' (m_v h' this) else 0) \<and>
      m_id h' (m_ba h' this) =
        m_id h' (m_bg h' this) + (if i \<noteq> - 1 then m_size h' (m_bg h' this) else 0) \<and>
      m_id h' (m_keyframe_pose h' this) =
        m_id h' (m_ba h' this) + (if i \<noteq> - 1 then m_size h' (m_ba h' this) else 0)"
  proof (cases "i = - 1")
    case True
    show ?thesis
      unfolding IMU_set_local_id_eq [OF assms] Let_def True
      using IMU_wf_neq [OF assms] by simp
  next
    case False
    show ?thesis
      unfolding IMU_set_local_id_eq [OF assms] Let_def
      using IMU_wf_neq [OF assms] IMU_wf_sizes [OF assms] False by simp
  qed
next
  show "let h' = IMU_set_local_id this (- 1) h in
      map (m_id h') [m_pose h' this, m_v h' this, m_bg h' this, m_ba h' this,
        m_keyframe_pose h' this] = [- 1, - 1, - 1, - 1, - 1]"
    unfolding IMU_set_local_id_eq [OF assms] Let_def
    using IMU_wf_neq [OF assms] by simp
next
  show "let h' = IMU_set_local_id this 5 h in
      map (m_id h') [m_pose h' this, m_v h' this, m_bg h' this, m_ba h' this,
        m_keyframe_pose h' this] = [5, 11, 14, 17, 20]"
    unfolding IMU_set_local_id_eq [OF assms] Let_def
    using IMU_wf_neq [OF assms] by simp
qed

theorem IMU_set_local_id_offsets_witness:
  "IMU_wf heap1 0 \<and>
   map (m_id (IMU_set_local_id 0 5 heap1)) [1, 4, 5, 6, 7] = [5, 11, 14, 17, 20] \<and>
   map (m_id (IMU_set_local_id 0 (- 1) heap1)) [1, 4, 5, 6, 7] = [- 1, - 1, - 1, - 1, - 1]"
  using IMU_set_local_id_offsets [OF heap1_wf, of 0] heap1_wf
  by (simp add: Let_def IMU_set_local_id_frame heap1_ptrs)

text \<open>C2. For a 21-vector \<open>dx\<close>, \<^verbatim>\<open>update(dx)\<close> succeeds and stores a 23-vector \<open>x'\<close>
  with: entries 0 to 3 the product of the normalised \<open>[0.5 * dx[0:3]; 1]\<close> with the
  current quaternion (on the left); entries 16 to 19 the same with \<open>dx[15:18]\<close> and the
  current keyframe quaternion; and every other entry the old entry plus the entry of
  \<open>dx\<close> at the fixed offset: position \<open>x'[4 + k] = x[4 + k] + dx[3 + k]\<close>, velocity
  \<open>x'[7 + k] = x[7 + k] + dx[6 + k]\<close>, gyro bias \<open>x'[10 + k] = x[10 + k] + dx[9 + k]\<close>,
  accel bias \<open>x'[13 + k] = x[13 + k] + dx[12 + k]\<close>, keyframe position
  \<open>x'[20 + k] = x[20 + k] + dx[18 + k]\<close>, for \<open>k = 0, 1, 2\<close>. The quaternion accessors
  return the two products afterwards.\<close>

theorem IMU_update_law:
  assumes "IMU_wf h this" "length dx = 21"
  shows "(let r = IMU_update qn qm this dx h;
              x = as_vector (m_value h this);
              x' = as_vector (m_value (snd r) this);
              dq = qn (0.5 * dx ! 0, 0.5 * dx ! 1, 0.5 * dx ! 2, 1);
              d_keyframe_q = qn (0.5 * dx ! 15, 0.5 * dx ! 16, 0.5 * dx ! 17, 1)
          in fst r = Inr () \<and> m_value (snd r) this = [x'] \<and> length x' = 23 \<and>
             (x' ! 0, x' ! 1, x' ! 2, x' ! 3) = qm dq (IMU_quat this h) \<and>
             x' ! 4 = x ! 4 + dx ! 3 \<and> x' ! 5 = x ! 5 + dx ! 4 \<and> x' ! 6 = x ! 6 + dx ! 5 \<and>
             x' ! 7 = x ! 7 + dx ! 6 \<and> x' ! 8 = x ! 8 + dx ! 7 \<and> x' ! 9 = x ! 9 + dx ! 8 \<and>
             x' ! 10 = x ! 10 + dx ! 9 \<and> x' ! 11 = x ! 11 + dx ! 10 \<and> x' ! 12 = x ! 12 + dx ! 11 \<and>
             x' ! 13 = x ! 13 + dx ! 12 \<and> x' ! 14 = x ! 14 + dx ! 13 \<and> x' ! 15 = x ! 15 + dx ! 14 \<and>
             (x' ! 16, x' ! 17, x' ! 18, x' ! 19) = qm d_keyframe_q (IMU_keyframe_quat this h) \<and>
             x' ! 20 = x ! 20 + dx ! 18 \<and> x' ! 21 = x ! 21 + dx ! 19 \<and> x' ! 22 = x ! 22 + dx ! 20 \<and>
             IMU_quat this (snd r) = qm dq (IMU_quat this h) \<and>
             IMU_keyframe_quat this (snd r) = qm d_keyframe_q (IMU_keyframe_quat this h))"
proof -
  note ok = IMU_update_ok [OF assms, of qn qm]
  note b = IMU_update_blocks [OF assms, of qn qm]
  have x': "as_vector (m_value (snd (IMU_update qn qm this dx h)) this) =
      IMU_update_value qn qm this dx h"
    using ok(2) by (simp add: as_vector_def)
  note e = IMU_update_entries [OF assms refl refl, where qn = qn and qm = qm]
  have q: "IMU_quat this (snd (IMU_update qn qm this dx h)) =
      qm (qn (0.5 * dx ! 0, 0.5 * dx ! 1, 0.5 * dx ! 2, 1)) (IMU_quat this h)"
    unfolding IMU_quat_def [of this "snd (IMU_update qn qm this dx h)"] PoseJPL_quat_def
      IMU_update_same ok(3) b(1)
    by (simp add: as_vector_def vec4_of_list_of_vec4)
  have k: "IMU_keyframe_quat this (snd (IMU_update qn qm this dx h)) =
      qm (qn (0.5 * dx ! 15, 0.5 * dx ! 16, 0.5 * dx ! 17, 1)) (IMU_keyframe_quat this h)"
    unfolding IMU_keyframe_quat_def [of this "snd (IMU_update qn qm this dx h)"] PoseJPL_quat_def
      IMU_update_same ok(4) b(6)
    by (simp add: as_vector_def vec4_of_list_of_vec4)
  show ?thesis
    unfolding Let_def x' q k
    using ok(1,2) length_IMU_update_value [OF assms, of qn qm] e(1,2)
      e(3) [of 0] e(3) [of 1] e(3) [of 2] e(4) [of 0] e(4) [of 1] e(4) [of 2]
      e(5) [of 0] e(5) [of 1] e(5) [of 2] e(6) [of 0] e(6) [of 1] e(6) [of 2]
      e(7) [of 0] e(7) [of 1] e(7) [of 2]
    by simp
qed

theorem IMU_update_law_witness:
  "IMU_wf heap2 0 \<and> length delta2 = 21 \<and>
   (let r = IMU_update quatnorm quat_multiply 0 delta2 heap2;
        x' = as_vector (m_value (snd r) 0)
    in fst r = Inr () \<and> m_value (snd r) 0 = [x'] \<and> length x' = 23 \<and>
       (x' ! 0, x' ! 1, x' ! 2, x' ! 3) = (0.6, 0, 0, 0.8) \<and>
       map (\<lambda>k. x' ! k) [4, 5, 6, 7, 8, 9, 10, 11, 12, 13, 14, 15] =
         [5, 7, 9, 11, 13, 15, 8, 9, 10, 12, 13, 14] \<and>
       (x' ! 16, x' ! 17, x' ! 18, x' ! 19) = (0.7, 0.1, 0.7, 0.1) \<and>
       map (\<lambda>k. x' ! k) [20, 21, 22] = [2, 3, 4] \<and>
       IMU_quat 0 (snd r) = (0.6, 0, 0, 0.8) \<and>
       IMU_keyframe_quat 0 (snd r) = (0.7, 0.1, 0.7, 0.1))"
  using IMU_update_law [OF heap2_wf length_delta2, of quatnorm quat_multiply] heap2_wf
  by (simp add: Let_def heap2_values heap2_quat as_vector_def value2_def delta2_def
      quatnorm_x quatnorm_z quat_multiply_x quat_multiply_z)

text \<open>C3. With assertions active, \<^verbatim>\<open>update\<close> fails exactly when \<open>dx\<close> does not have 21
  rows, \<^verbatim>\<open>set_value\<close> and \<^verbatim>\<open>set_fej\<close> fail exactly when the argument is not 23x1, and
  a failing call returns the store it was given: nothing has been written.\<close>

theorem IMU_dimension_mismatch:
  assumes "IMU_wf h this"
  shows "fst (IMU_update qn qm this dx h) =
           (if length dx = 21 then Inr () else Inl AssertionFailed) \<and>
         (length dx \<noteq> 21 \<longrightarrow> snd (IMU_update qn qm this dx h) = h) \<and>
         fst (IMU_set_value this v h) =
           (if rows v = 23 \<and> cols v = 1 then Inr () else Inl AssertionFailed) \<and>
         (\<not> (rows v = 23 \<and> cols v = 1) \<longrightarrow> snd (IMU_set_value this v h) = h) \<and>
         fst (IMU_set_fej this v h) =
           (if rows v = 23 \<and> cols v = 1 then Inr () else Inl AssertionFailed) \<and>
         (\<not> (rows v = 23 \<and> cols v = 1) \<longrightarrow> snd (IMU_set_fej this v h) = h)"
proof -
  have u: "fst (IMU_update qn qm this dx h) =
           (if length dx = 21 then Inr () else Inl AssertionFailed) \<and>
         (length dx \<noteq> 21 \<longrightarrow> snd (IMU_update qn qm this dx h) = h)"
    using IMU_update_ok(1) [OF assms, of dx qn qm] IMU_update_fail [OF assms, of dx qn qm]
    by (cases "length dx = 21") simp_all
  have sv: "fst (IMU_set_value this v h) =
           (if rows v = 23 \<and> cols v = 1 then Inr () else Inl AssertionFailed) \<and>
         (\<not> (rows v = 23 \<and> cols v = 1) \<longrightarrow> snd (IMU_set_value this v h) = h)"
    using IMU_set_value_fields(1) [OF assms, of v] IMU_set_value_internal_fail [of v this h]
    by (cases "shape 23 1 v") (simp_all add: shape_def IMU_set_value_def)
  have sf: "fst (IMU_set_fej this v h) =
           (if rows v = 23 \<and> cols v = 1 then Inr () else Inl AssertionFailed) \<and>
         (\<not> (rows v = 23 \<and> cols v = 1) \<longrightarrow> snd (IMU_set_fej this v h) = h)"
    using IMU_set_fej_fields(1) [OF assms, of v] IMU_set_fej_internal_fail [of v this h]
    by (cases "shape 23 1 v") (simp_all add: shape_def IMU_set_fej_def)
  from u sv sf show ?thesis by blast
qed

theorem IMU_dimension_mismatch_witness:
  "IMU_wf heap1 0 \<and>
   IMU_update quatnorm quat_multiply 0 [1, 2, 3] heap1 = (Inl AssertionFailed, heap1) \<and>
   IMU_set_value 0 [[1, 2, 3]] heap1 = (Inl AssertionFailed, heap1) \<and>
   IMU_set_fej 0 [[1, 2, 3], [4, 5, 6]] heap1 = (Inl AssertionFailed, heap1)"
  using IMU_dimension_mismatch [OF heap1_wf, of quatnorm quat_multiply "[1, 2, 3]" "[[1, 2, 3]]"]
    IMU_dimension_mismatch [OF heap1_wf, of quatnorm quat_multiply "[1, 2, 3]" "[[1, 2, 3], [4, 5, 6]]"]
    heap1_wf
  by (simp add: prod_eq_iff rows_def cols_def)

text \<open>C4. For every 23x1 vector \<open>v\<close> (unit-norm quaternion sub-blocks or not),
  \<^verbatim>\<open>set_value(v)\<close> succeeds and the stored value is \<open>v\<close>; \<^verbatim>\<open>set_fej(v)\<close> succeeds and the
  stored linearization value is \<open>v\<close>.\<close>

theorem IMU_set_value_roundtrip:
  assumes "IMU_wf h this" "shape 23 1 v"
  shows "fst (IMU_set_value this v h) = Inr () \<and>
         m_value (snd (IMU_set_value this v h)) this = v \<and>
         fst (IMU_set_fej this v h) = Inr () \<and>
         m_fej (snd (IMU_set_fej this v h)) this = v"
  using IMU_set_value_fields(1,2) [OF assms] IMU_set_fej_fields(1,2) [OF assms] by simp

theorem IMU_set_value_roundtrip_witness:
  "IMU_wf heap1 0 \<and> shape 23 1 value2 \<and>
   fst (IMU_set_value 0 value2 heap1) = Inr () \<and>
   m_value (snd (IMU_set_value 0 value2 heap1)) 0 = value2 \<and>
   fst (IMU_set_fej 0 value2 heap1) = Inr () \<and>
   m_fej (snd (IMU_set_fej 0 value2 heap1)) 0 = value2"
  using IMU_set_value_roundtrip [OF heap1_wf shape_value2] heap1_wf shape_value2 by simp

text \<open>C5. A freshly constructed IMU holds identity orientation, zero position, velocity
  and biases, identity keyframe orientation and zero keyframe position; \<^verbatim>\<open>update\<close> with
  the zero 21-vector succeeds on it and leaves the value, and the whole store,
  unchanged, for helpers that normalise the identity quaternion to itself and multiply
  identity with identity to identity.\<close>

theorem IMU_update_zero_default:
  assumes "qn (0, 0, 0, 1) = (0, 0, 0, 1)" "qm (0, 0, 0, 1) (0, 0, 0, 1) = (0, 0, 0, 1)"
  shows "(let this = next_addr h0; h = snd (IMU_new h0);
              r = IMU_update qn qm this (replicate 21 0) h
          in fst (IMU_new h0) = Inr this \<and>
             m_value h this =
               [[0, 0, 0, 1, 0, 0, 0, 0, 0, 0, 0, 0, 0, 0, 0, 0, 0, 0, 0, 1, 0, 0, 0]] \<and>
             fst r = Inr () \<and> m_value (snd r) this = m_value h this \<and> snd r = h)"
proof -
  have "IMU_update qn qm (next_addr h0) (replicate 21 0) (snd (IMU_new h0)) =
      (Inr (), snd (IMU_new h0))"
    using IMU_update_eq [OF IMU_new_wf [of h0], of "replicate 21 0" qn qm]
    by (simp add: IMU_update_value_zero [where qn = qn and qm = qm, OF assms] IMU_set_value_default)
  then show ?thesis
    by (simp add: Let_def IMU_new_fst IMU_new_values imu0_eq)
qed

theorem IMU_update_zero_default_witness:
  "quatnorm (0, 0, 0, 1) = (0, 0, 0, 1) \<and> quat_multiply (0, 0, 0, 1) (0, 0, 0, 1) = (0, 0, 0, 1) \<and>
   m_value heap1 0 = [[0, 0, 0, 1, 0, 0, 0, 0, 0, 0, 0, 0, 0, 0, 0, 0, 0, 0, 0, 1, 0, 0, 0]] \<and>
   IMU_update quatnorm quat_multiply 0 (replicate 21 0) heap1 = (Inr (), heap1)"
  using IMU_update_zero_default [where qn = quatnorm and qm = quat_multiply and ?h0.0 = empty_heap,
      OF quatnorm_identity quat_multiply_identity]
    quatnorm_identity quat_multiply_identity
  by (simp add: Let_def heap1_def empty_heap_next prod_eq_iff)

text \<open>C6. \<^verbatim>\<open>reset_keyframe_states()\<close> succeeds; afterwards the sub-range \<open>[16:23)\<close> of
  the value and of the linearization value is \<open>[0,0,0,1,0,0,0]\<close>, as are value and
  linearization value of the keyframe pose object; the sub-ranges \<open>[0:7)\<close>, \<open>[7:10)\<close>,
  \<open>[10:13)\<close>, \<open>[13:16)\<close> of both vectors, the values and linearization values of pose,
  its quaternion and position, velocity and the two biases, and the covariance index of
  each of the ten objects are what they were.\<close>

theorem IMU_reset_keyframe_states_effect:
  assumes "IMU_wf h this"
  shows "(let r = IMU_reset_keyframe_states this h; h' = snd r;
              others = [m_pose h this, m_q h (m_pose h this), m_p h (m_pose h this),
                        m_v h this, m_bg h this, m_ba h this]
          in fst r = Inr () \<and>
             block 16 0 7 1 (m_value h' this) = [[0, 0, 0, 1, 0, 0, 0]] \<and>
             block 16 0 7 1 (m_fej h' this) = [[0, 0, 0, 1, 0, 0, 0]] \<and>
             m_value h' (m_keyframe_pose h this) = [[0, 0, 0, 1, 0, 0, 0]] \<and>
             m_fej h' (m_keyframe_pose h this) = [[0, 0, 0, 1, 0, 0, 0]] \<and>
             block 0 0 7 1 (m_value h' this) = block 0 0 7 1 (m_value h this) \<and>
             block 7 0 3 1 (m_value h' this) = block 7 0 3 1 (m_value h this) \<and>
             block 10 0 3 1 (m_value h' this) = block 10 0 3 1 (m_value h this) \<and>
             block 13 0 3 1 (m_value h' this) = block 13 0 3 1 (m_value h this) \<and>
             block 0 0 7 1 (m_fej h' this) = block 0 0 7 1 (m_fej h this) \<and>
             block 7 0 3 1 (m_fej h' this) = block 7 0 3 1 (m_fej h this) \<and>
             block 10 0 3 1 (m_fej h' this) = block 10 0 3 1 (m_fej h this) \<and>
             block 13 0 3 1 (m_fej h' this) = block 13 0 3 1 (m_fej h this) \<and>
             map (m_value h') others = map (m_value h) others \<and>
             map (m_fej h') others = map (m_fej h) others \<and>
             IMU_objects h' this = IMU_objects h this \<and>
             map (m_id h') (IMU_objects h this) = map (m_id h) (IMU_objects h this))"
proof -
  obtain c where c: "m_value h this = [c]" "length c = 23"
    using IMU_wf_value [OF assms] by blast
  obtain d where d: "m_fej h this = [d]" "length d = 23"
    using IMU_wf_fej [OF assms] by blast
  have p: "length pose0 = 7"
    by (simp add: pose0_def)
  note bb = block_set_block_before [of _ _ 16 7 _ pose0]
  show ?thesis
    unfolding IMU_reset_keyframe_states_eq [OF assms] Let_def
    using IMU_wf_lt [OF assms] IMU_wf_neq [OF assms] c d
      block_set_block_same [of 16 7 c pose0] block_set_block_same [of 16 7 d pose0] p
    by (simp add: bb IMU_objects_def) (simp add: pose0_def)
qed

theorem IMU_reset_keyframe_states_effect_witness:
  "IMU_wf heap2 0 \<and>
   block 16 0 7 1 (m_value heap2 0) = [[0.5, 0.5, 0.5, 0.5, 1, 2, 3]] \<and>
   (let h' = snd (IMU_reset_keyframe_states 0 heap2)
    in block 16 0 7 1 (m_value h' 0) = [[0, 0, 0, 1, 0, 0, 0]] \<and>
       block 16 0 7 1 (m_fej h' 0) = [[0, 0, 0, 1, 0, 0, 0]] \<and>
       block 0 0 7 1 (m_value h' 0) = [[0, 0, 0, 1, 4, 5, 6]] \<and>
       block 7 0 3 1 (m_value h' 0) = [[7, 8, 9]] \<and>
       block 10 0 3 1 (m_value h' 0) = [[1, 1, 1]] \<and>
       block 13 0 3 1 (m_value h' 0) = [[2, 2, 2]])"
  using IMU_reset_keyframe_states_effect [OF heap2_wf] heap2_wf
  by (simp add: Let_def heap2_values) (simp add: value2_def block_def)

text \<open>C7. \<^verbatim>\<open>clone()\<close> succeeds and returns a new address; the IMU there is well formed,
  its ten objects are all newly allocated, its value and linearization value are those
  of the original and its covariance index is \<open>-1\<close>; every object that existed before
  the call is unchanged. A following \<^verbatim>\<open>update\<close> of the clone with a 21-vector succeeds
  and still leaves every object that existed before the clone unchanged, in particular
  the value of the original.\<close>

theorem IMU_clone_independent:
  assumes "IMU_wf h this" "length dx = 21"
  shows "(let c = next_addr h; r = IMU_clone this h; h' = snd r;
              r2 = IMU_update qn qm c dx h'
          in fst r = Inr c \<and> c \<notin> set (IMU_objects h this) \<and>
             IMU_wf h' c \<and> IMU_wf h' this \<and>
             list_all (\<lambda>x. next_addr h \<le> x) (IMU_objects h' c) \<and>
             m_value h' c = m_value h this \<and> m_fej h' c = m_fej h this \<and>
             m_id h' c = - 1 \<and>
             unchanged_below (next_addr h) h h' \<and>
             fst r2 = Inr () \<and>
             m_value (snd r2) this = m_value h this \<and>
             unchanged_below (next_addr h) h (snd r2))"
proof -
  note f = IMU_clone_facts [OF assms(1)]
  note lt = IMU_wf_lt [OF assms(1)]
  have g: "list_all (\<lambda>x. next_addr h \<le> x) (IMU_objects (snd (IMU_clone this h)) (next_addr h))"
    unfolding f(3) by simp
  have n: "next_addr h \<notin> set (IMU_objects h this)"
    using lt by (simp add: IMU_objects_def)
  have wt: "IMU_wf (snd (IMU_clone this h)) this"
    using IMU_wf_unchanged_below [OF assms(1) f(7)] f(8) by simp
  have u: "unchanged_below (next_addr h) h
      (snd (IMU_update qn qm (next_addr h) dx (snd (IMU_clone this h))))"
    using unchanged_below_trans [OF f(7) unchanged_below_update [OF f(2) g]] .
  then have v: "m_value (snd (IMU_update qn qm (next_addr h) dx (snd (IMU_clone this h)))) this =
      m_value h this"
    using lt(1) by (simp add: unchanged_below_def)
  show ?thesis
    unfolding Let_def
    using f(1,2,4,5,6,7) n wt g IMU_update_ok(1) [OF f(2) assms(2)] v u by simp
qed

theorem IMU_clone_independent_witness:
  "IMU_wf heap3 0 \<and> length delta1 = 21 \<and> m_id heap3 0 = 5 \<and>
   (let r = IMU_clone 0 heap3; h' = snd r;
        r2 = IMU_update quatnorm quat_multiply 10 delta1 h'
    in fst r = Inr 10 \<and> m_id h' 10 = - 1 \<and>
       m_value h' 10 = value2 \<and> m_fej h' 10 = value2 \<and>
       fst r2 = Inr () \<and> m_value (snd r2) 0 = value2)"
  using IMU_clone_independent [OF heap3_wf length_delta1, of quatnorm quat_multiply]
    heap3_wf length_delta1
  by (simp add: Let_def heap3_facts)

text \<open>C8. \<^verbatim>\<open>check_if_subvariable(check)\<close> compares the pointer with pose, pose's
  quaternion and position, velocity, gyro bias, accel bias, keyframe pose and its
  quaternion and position, in this order, and returns the first that is identical; the
  result is \<open>check\<close> itself when it is one of the nine and null otherwise, in particular
  for the IMU block itself and for the null pointer.\<close>

theorem IMU_check_if_subvariable_result:
  assumes "IMU_wf h this"
  shows "IMU_check_if_subvariable this check h =
     (if check = Some (m_pose h this) then Some (m_pose h this)
      else if check = Some (m_q h (m_pose h this)) then Some (m_q h (m_pose h this))
      else if check = Some (m_p h (m_pose h this)) then Some (m_p h (m_pose h this))
      else if check = Some (m_v h this) then Some (m_v h this)
      else if check = Some (m_bg h this) then Some (m_bg h this)
      else if check = Some (m_ba h this) then Some (m_ba h this)
      else if check = Some (m_keyframe_pose h this) then Some (m_keyframe_pose h this)
      else if check = Some (m_q h (m_keyframe_pose h this))
        then Some (m_q h (m_keyframe_pose h this))
      else if check = Some (m_p h (m_keyframe_pose h this))
        then Some (m_p h (m_keyframe_pose h this))
      else None) \<and>
    IMU_check_if_subvariable this check h =
      (if check \<in> Some ` set (tl (IMU_objects h this)) then check else None) \<and>
    IMU_check_if_subvariable this (Some this) h = None \<and>
    IMU_check_if_subvariable this None h = None"
proof (intro conjI)
  show "IMU_check_if_subvariable this check h =
      (if check \<in> Some ` set (tl (IMU_objects h this)) then check else None)"
    unfolding IMU_check_if_subvariable_first by (rule first_identical_mem)
  show "IMU_check_if_subvariable this (Some this) h = None"
    unfolding IMU_check_if_subvariable_first using IMU_wf_neq [OF assms]
    by (simp add: IMU_objects_def)
  show "IMU_check_if_subvariable this None h = None"
    unfolding IMU_check_if_subvariable_first by (simp add: IMU_objects_def)
qed (rule IMU_check_if_subvariable_chain)

theorem IMU_check_if_subvariable_result_witness:
  "IMU_wf heap1 0 \<and>
   IMU_check_if_subvariable 0 (Some 3) heap1 = Some 3 \<and>
   IMU_check_if_subvariable 0 (Some 0) heap1 = None \<and>
   IMU_check_if_subvariable 0 None heap1 = None"
  using IMU_check_if_subvariable_result [OF heap1_wf, of "Some 3", THEN conjunct2] heap1_wf
  by (simp add: heap1_ptrs IMU_objects_def)

text \<open>C9. \<^verbatim>\<open>update\<close> never writes a linearization value: the \<^verbatim>\<open>_fej\<close> member of every
  object is the same before and after, whatever the argument. Neither do \<^verbatim>\<open>set_value\<close>
  and \<^verbatim>\<open>set_local_id\<close>. On a well-formed IMU, \<^verbatim>\<open>clone\<close> leaves the linearization values
  of the ten objects as they are, and \<^verbatim>\<open>reset_keyframe_states\<close> those of pose, its
  quaternion and position, velocity and the biases, and the sub-range \<open>[0:16)\<close> of the
  block's own.\<close>

theorem IMU_update_keeps_fej:
  "m_fej (snd (IMU_update qn qm this dx h)) = m_fej h \<and>
   m_fej (snd (IMU_set_value this v h)) = m_fej h \<and>
   m_fej (IMU_set_local_id this i h) = m_fej h \<and>
   (IMU_wf h this \<longrightarrow>
      map (m_fej (snd (IMU_clone this h))) (IMU_objects h this) =
        map (m_fej h) (IMU_objects h this) \<and>
      map (m_fej (snd (IMU_reset_keyframe_states this h)))
        [m_pose h this, m_q h (m_pose h this), m_p h (m_pose h this),
         m_v h this, m_bg h this, m_ba h this] =
      map (m_fej h)
        [m_pose h this, m_q h (m_pose h this), m_p h (m_pose h this),
         m_v h this, m_bg h this, m_ba h this] \<and>
      block 0 0 16 1 (m_fej (snd (IMU_reset_keyframe_states this h)) this) =
        block 0 0 16 1 (m_fej h this))"
  using IMU_clone_keeps_fej [of h this] IMU_reset_keyframe_states_keeps_fej [of h this]
  by (simp add: IMU_update_same(4) IMU_set_value_same(4) IMU_set_local_id_frame(4))

theorem IMU_update_keeps_fej_witness:
  "IMU_wf heap2 0 \<and> m_fej heap2 0 = value2 \<and>
   m_fej (snd (IMU_update quatnorm quat_multiply 0 delta1 heap2)) 0 = value2 \<and>
   m_fej (snd (IMU_set_value 0 (as_matrix imu0) heap2)) 0 = value2 \<and>
   m_fej (IMU_set_local_id 0 5 heap2) 0 = value2 \<and>
   m_fej (snd (IMU_clone 0 heap2)) 0 = value2 \<and>
   block 0 0 16 1 (m_fej (snd (IMU_reset_keyframe_states 0 heap2)) 0) =
     [[0, 0, 0, 1, 4, 5, 6, 7, 8, 9, 1, 1, 1, 2, 2, 2]]"
  using IMU_update_keeps_fej [of quatnorm quat_multiply 0 delta1 heap2 "as_matrix imu0" 5]
    heap2_wf
  by (simp add: heap2_values IMU_objects_def) (simp add: value2_def block_def)

text \<open>C10. Parent-child consistency. The constructor returns a well-formed IMU in which
  the value of pose, velocity, gyro bias, accel bias and keyframe pose is the sub-range
  \<open>[0:7)\<close>, \<open>[7:10)\<close>, \<open>[10:13)\<close>, \<open>[13:16)\<close>, \<open>[16:23)\<close> of the flat value, and likewise
  for the linearization values; \<^verbatim>\<open>set_value\<close>, \<^verbatim>\<open>set_fej\<close>, \<^verbatim>\<open>update\<close> and
  \<^verbatim>\<open>reset_keyframe_states\<close> keep this, whatever their arguments.\<close>

theorem IMU_parent_child_consistency:
  assumes "IMU_inv h this"
  shows "IMU_inv (snd (IMU_new h0)) (next_addr h0) \<and>
         IMU_inv (snd (IMU_set_value this v h)) this \<and>
         IMU_inv (snd (IMU_set_fej this v h)) this \<and>
         IMU_inv (snd (IMU_update qn qm this dx h)) this \<and>
         IMU_inv (snd (IMU_reset_keyframe_states this h)) this"
proof -
  from assms have wf: "IMU_wf h this" and co: "IMU_consistent h this"
    by (simp_all add: IMU_inv_def)
  show ?thesis
    unfolding IMU_inv_def
    using IMU_new_wf [of h0] IMU_new_consistent [of h0]
      IMU_wf_set_value [OF wf, of v] IMU_consistent_set_value [OF wf co, of v]
      IMU_wf_set_fej [OF wf, of v] IMU_consistent_set_fej [OF wf co, of v]
      IMU_wf_update [OF wf, of qn qm dx] IMU_consistent_update [OF wf co, of qn qm dx]
      IMU_wf_reset_keyframe_states [OF wf] IMU_consistent_reset_keyframe_states [OF wf co]
    by simp
qed

theorem IMU_parent_child_consistency_witness:
  "IMU_inv heap1 0 \<and>
   IMU_inv (snd (IMU_set_value 0 value2 heap1)) 0 \<and>
   IMU_inv (snd (IMU_set_fej 0 value2 heap1)) 0 \<and>
   IMU_inv (snd (IMU_update quatnorm quat_multiply 0 delta1 heap1)) 0 \<and>
   IMU_inv (snd (IMU_reset_keyframe_states 0 heap1)) 0"
proof -
  have 1: "IMU_inv heap1 0"
    using IMU_new_wf [of empty_heap] IMU_new_consistent [of empty_heap]
    by (simp add: IMU_inv_def heap1_def empty_heap_next)
  show ?thesis
    using 1 IMU_parent_child_consistency [OF 1, of empty_heap value2 quatnorm quat_multiply delta1]
    by simp
qed

end
